theory Spec2Isabelle
  imports Main
begin

section \<open>JavaScript values and errors\<close>

text \<open>
  The SDK is TypeScript; its static types are erased at run time, and a decoded response
  is whatever JSON the server sent. A value is therefore modelled as the run-time value
  it is: a JSON value, or a native \<open>Date\<close> once a date field has been hydrated. A
  property that is absent (\<open>undefined\<close>) is \<open>None\<close> wherever a property is read.
  Numbers are modelled as integers.
\<close>

datatype date = Date int | InvalidDate

datatype jsval =
    VNull
  | VBool bool
  | VNum int
  | VStr string
  | VDate date
  | VArr "jsval list"
  | VObj "(string \<times> jsval) list"

text \<open>
  A decoded resource (\<open>Screenshot\<close>, \<open>WorkflowRun\<close>, \<open>BatchJob\<close>, ...) is a plain object:
  a map from property names to values.
\<close>

type_synonym obj = "string \<rightharpoonup> jsval"

text \<open>
  An \<open>Error\<close> object with the own properties the SDK sets on it (\<open>Stack0Error\<close> in
  \<open>lib/shared-types.ts\<close>): \<open>statusCode\<close>, \<open>code\<close> and \<open>response\<close> are set by
  \<open>handleErrorResponse\<close>, \<open>cause\<close> by \<open>createError\<close>. \<open>None\<close> is a property that
  is not there, so \<open>"statusCode" in error\<close> is \<open>statusCode error \<noteq> None\<close>.
\<close>

datatype js_error =
  JsError (name: string) (message: string) (statusCode: "nat option")
    (code: "jsval option") (response: "jsval option") (cause: "js_error option")

text \<open>\<open>new Error(message)\<close>: no own property besides the message.\<close>

definition newError :: "string \<Rightarrow> js_error" where
  "newError msg = JsError ''Error'' msg None None None None"

text \<open>
  What the platform itself throws: \<open>fetch\<close> rejects with a \<open>TypeError\<close> or an
  \<open>AbortError\<close>, \<open>response.json()\<close> with a \<open>SyntaxError\<close>. These have a name and a
  message and none of the SDK's properties.
\<close>

datatype platform_error = PlatformError string string

fun thrown :: "platform_error \<Rightarrow> js_error" where
  "thrown (PlatformError n msg) = JsError n msg None None None None"

text \<open>
  The platform functions the SDK calls and does not define: \<open>new Date(string)\<close>,
  \<open>JSON.stringify\<close>, and the string conversion \<open>new Error(v)\<close> applies to a message
  that is not a string.
\<close>

record platform =
  newDate :: "string \<Rightarrow> date"
  stringify :: "jsval \<Rightarrow> string"
  toString :: "jsval \<Rightarrow> string"

text \<open>Property read \<open>v?.k\<close>: only an object has the properties read here.\<close>

fun getProp :: "jsval \<Rightarrow> string \<Rightarrow> jsval option" where
  "getProp (VObj kvs) k = map_of kvs k"
| "getProp _ k = None"

text \<open>JavaScript truthiness of a value that may be \<open>undefined\<close>.\<close>

fun truthy :: "jsval option \<Rightarrow> bool" where
  "truthy None = False"
| "truthy (Some VNull) = False"
| "truthy (Some (VBool b)) = b"
| "truthy (Some (VNum n)) = (n \<noteq> 0)"
| "truthy (Some (VStr s)) = (s \<noteq> [])"
| "truthy (Some _) = True"

text \<open>The message of \<open>new Error(v)\<close> for a truthy \<open>v\<close>.\<close>

fun messageOf :: "platform \<Rightarrow> jsval \<Rightarrow> string" where
  "messageOf p (VStr s) = s"
| "messageOf p v = toString p v"

text \<open>The message of \<open>new Error(v || d)\<close>, where \<open>d\<close> is a string.\<close>

definition orDefault :: "platform \<Rightarrow> jsval option \<Rightarrow> string \<Rightarrow> string" where
  "orDefault p v d = (case v of Some x \<Rightarrow> if truthy v then messageOf p x else d | None \<Rightarrow> d)"

text \<open>Decimal digits of a number, as a template literal prints \<open>response.status\<close>.\<close>

fun decimal :: "nat \<Rightarrow> string" where
  "decimal n =
     (if n < 10 then [''0123456789'' ! n]
      else decimal (n div 10) @ [''0123456789'' ! (n mod 10)])"

declare decimal.simps [simp del]

section \<open>Transport: \<open>HttpClient\<close>\<close>

record HttpClient =
  apiKey :: string
  baseUrl :: string

datatype HttpClientConfig = HttpClientConfig string "string option"

text \<open>The constructor: \<open>config.baseUrl || "https://api.stack0.dev/v1"\<close>.\<close>

fun newHttpClient :: "HttpClientConfig \<Rightarrow> HttpClient" where
  "newHttpClient (HttpClientConfig key url) =
     \<lparr>apiKey = key,
      baseUrl = (case url of
                   None \<Rightarrow> ''https://api.stack0.dev/v1''
                 | Some u \<Rightarrow> if u = [] then ''https://api.stack0.dev/v1'' else u)\<rparr>"

text \<open>The second argument of \<open>fetch\<close>, and the \<open>Response\<close> it resolves to.\<close>

record fetch_init =
  httpMethod :: string
  headers :: "string \<rightharpoonup> string"
  body :: "string option"

record Response =
  status :: nat
  statusText :: string
  json :: "platform_error + jsval"

text \<open>\<open>response.ok\<close>: the status is in the range 200-299.\<close>

definition ok :: "Response \<Rightarrow> bool" where
  "ok r = (200 \<le> status r \<and> status r \<le> 299)"

text \<open>The network: what \<open>fetch(url, init)\<close> settles to.\<close>

type_synonym network = "string \<Rightarrow> fetch_init \<Rightarrow> platform_error + Response"

definition getHeaders :: "HttpClient \<Rightarrow> bool \<Rightarrow> (string \<rightharpoonup> string)" where
  "getHeaders this includeContentType =
     (let headers = [''Authorization'' \<mapsto> ''Bearer '' @ apiKey this]
      in if includeContentType
         then headers(''Content-Type'' \<mapsto> ''application/json'')
         else headers)"

text \<open>
  \<open>handleErrorResponse\<close> always throws; the model returns the error it throws.
\<close>

definition handleErrorResponse :: "platform \<Rightarrow> Response \<Rightarrow> js_error" where
  "handleErrorResponse p resp =
     (let errorBody = (case json resp of
                         Inr v \<Rightarrow> v
                       | Inl _ \<Rightarrow> VObj [(''message'', VStr (statusText resp))]);
          msg = orDefault p (getProp errorBody ''message'') (''HTTP '' @ decimal (status resp));
          c = (case getProp errorBody ''code'' of
                 None \<Rightarrow> VStr []
               | Some VNull \<Rightarrow> VStr []
               | Some v \<Rightarrow> v)
      in JsError ''Error'' msg (Some (status resp)) (Some c) (Some errorBody) None)"

definition createError :: "string \<Rightarrow> js_error \<Rightarrow> js_error" where
  "createError msg c = JsError ''Error'' msg None None None (Some c)"

text \<open>The request \<open>request\<close> hands to \<open>fetch\<close>.\<close>

definition requestInit :: "platform \<Rightarrow> HttpClient \<Rightarrow> string \<Rightarrow> jsval option \<Rightarrow> fetch_init" where
  "requestInit p this meth b =
     (let bodyString = (case b of None \<Rightarrow> None | Some v \<Rightarrow> Some (stringify p v));
          hasBody = (bodyString \<noteq> None)
      in \<lparr>httpMethod = meth,
          headers = getHeaders this hasBody,
          body = (if hasBody then bodyString else None)\<rparr>)"

text \<open>
  \<open>request\<close>: the \<open>try\<close> block gives the decoded value or what was thrown in it, the
  \<open>catch\<close> clause re-throws an error that has a \<open>statusCode\<close> and wraps any other.
\<close>

definition request ::
  "platform \<Rightarrow> HttpClient \<Rightarrow> network \<Rightarrow> string \<Rightarrow> string \<Rightarrow> jsval option \<Rightarrow> js_error + jsval" where
  "request p this fetch meth path b =
     (let url = baseUrl this @ path;
          attempt =
            (case fetch url (requestInit p this meth b) of
               Inl e \<Rightarrow> Inl (thrown e)
             | Inr resp \<Rightarrow>
                 if \<not> ok resp then Inl (handleErrorResponse p resp)
                 else (case json resp of
                         Inl e \<Rightarrow> Inl (thrown e)
                       | Inr data \<Rightarrow> Inr data))
      in case attempt of
           Inr data \<Rightarrow> Inr data
         | Inl error \<Rightarrow>
             if statusCode error \<noteq> None then Inl error
             else Inl (createError ''Network error'' error))"

section \<open>Response hydration\<close>

text \<open>
  The two statements every \<open>convert...Dates\<close> helper is made of. The helpers assign to
  the object they are given and return it; the model returns the updated object.
\<close>

text \<open>\<open>if (typeof x.k === "string") { x.k = new Date(x.k) }\<close>\<close>

definition stringToDate :: "platform \<Rightarrow> string \<Rightarrow> obj \<Rightarrow> obj" where
  "stringToDate p k x =
     (case x k of Some (VStr s) \<Rightarrow> x(k \<mapsto> VDate (newDate p s)) | _ \<Rightarrow> x)"

text \<open>\<open>if (x.k && typeof x.k === "string") { x.k = new Date(x.k) }\<close>\<close>

definition truthyStringToDate :: "platform \<Rightarrow> string \<Rightarrow> obj \<Rightarrow> obj" where
  "truthyStringToDate p k x =
     (case x k of
        Some (VStr s) \<Rightarrow> if truthy (x k) then x(k \<mapsto> VDate (newDate p s)) else x
      | _ \<Rightarrow> x)"

subsection \<open>\<open>Webdata\<close>\<close>

definition convertScreenshotDates :: "platform \<Rightarrow> obj \<Rightarrow> obj" where
  "convertScreenshotDates p screenshot =
     truthyStringToDate p ''completedAt'' (stringToDate p ''createdAt'' screenshot)"

definition convertExtractionDates :: "platform \<Rightarrow> obj \<Rightarrow> obj" where
  "convertExtractionDates p extraction =
     truthyStringToDate p ''completedAt'' (stringToDate p ''createdAt'' extraction)"

definition convertScheduleDates :: "platform \<Rightarrow> obj \<Rightarrow> obj" where
  "convertScheduleDates p schedule =
     truthyStringToDate p ''nextRunAt''
       (truthyStringToDate p ''lastRunAt''
          (stringToDate p ''updatedAt'' (stringToDate p ''createdAt'' schedule)))"

definition convertUsageDates :: "platform \<Rightarrow> obj \<Rightarrow> obj" where
  "convertUsageDates p usage =
     stringToDate p ''periodEnd'' (stringToDate p ''periodStart'' usage)"

definition convertBatchJobDates :: "platform \<Rightarrow> obj \<Rightarrow> obj" where
  "convertBatchJobDates p job =
     truthyStringToDate p ''completedAt''
       (truthyStringToDate p ''startedAt'' (stringToDate p ''createdAt'' job))"

subsection \<open>\<open>Workflows\<close>\<close>

definition convertDates :: "platform \<Rightarrow> obj \<Rightarrow> obj" where
  "convertDates p workflow =
     stringToDate p ''updatedAt'' (stringToDate p ''createdAt'' workflow)"

definition convertRunDates :: "platform \<Rightarrow> obj \<Rightarrow> obj" where
  "convertRunDates p run =
     truthyStringToDate p ''completedAt''
       (truthyStringToDate p ''startedAt'' (stringToDate p ''createdAt'' run))"

subsection \<open>\<open>Screenshots\<close>\<close>

definition Screenshots_convertBatchJobDates :: "platform \<Rightarrow> obj \<Rightarrow> obj" where
  "Screenshots_convertBatchJobDates p job =
     truthyStringToDate p ''completedAt''
       (truthyStringToDate p ''startedAt'' (stringToDate p ''createdAt'' job))"

section \<open>Waiting for completion\<close>

text \<open>
  The remote service and the clock, as one invocation of a wait operation meets them.
  \<open>post\<close> is the outcome of the create call (the \<open>id\<close> of the response, or the error
  the transport threw), \<open>get env id k\<close> the outcome of the \<open>k\<close>-th status request for
  that id, before hydration. Time is in milliseconds: \<open>startClock\<close> is \<open>Date.now()\<close> at
  entry, each call takes its latency, and \<open>setTimeout(resolve, d)\<close> resolves after the
  delay the platform's timer makes of \<open>d\<close>, plus the timer's lag. Latencies and lags are
  natural numbers: the clock does not run backwards.
\<close>

record remote =
  startClock :: int
  post :: "obj \<Rightarrow> js_error + string"
  postLatency :: nat
  get :: "string \<Rightarrow> nat \<Rightarrow> js_error + obj"
  getLatency :: "nat \<Rightarrow> nat"
  timerLag :: "nat \<Rightarrow> nat"

text \<open>The clock, and the calls made so far.\<close>

record trace =
  now :: int
  submits :: nat
  fetches :: nat
  sleeps :: nat

text \<open>\<open>options: { pollInterval?: number; timeout?: number }\<close> and its defaults.\<close>

record options =
  opt_pollInterval :: "int option"
  opt_timeout :: "int option"

definition withDefault :: "'a option \<Rightarrow> 'a \<Rightarrow> 'a" where
  "withDefault v d = (case v of None \<Rightarrow> d | Some x \<Rightarrow> x)"

text \<open>
  The delay of \<open>setTimeout(resolve, d)\<close>. The timer keeps the delay in a signed 32-bit
  integer: a \<open>d\<close> from \<open>1\<close> to \<open>2147483647\<close> is the delay in milliseconds, and Node sets
  any other \<open>d\<close>, larger or smaller, to \<open>1\<close>. So a poll interval above \<open>2147483647\<close>
  (about 24.8 days) does not wait that long: it waits a millisecond.
\<close>

definition setTimeoutDelay :: "int \<Rightarrow> int" where
  "setTimeoutDelay d = (if 1 \<le> d \<and> d \<le> 2147483647 then d else 1)"

text \<open>The state after the create call, after a status request, and after the delay.\<close>

definition submitted :: "remote \<Rightarrow> trace" where
  "submitted env =
     \<lparr>now = startClock env + int (postLatency env), submits = 1, fetches = 0, sleeps = 0\<rparr>"

definition fetched :: "remote \<Rightarrow> trace \<Rightarrow> trace" where
  "fetched env t = t\<lparr>now := now t + int (getLatency env (fetches t)), fetches := fetches t + 1\<rparr>"

definition slept :: "remote \<Rightarrow> int \<Rightarrow> trace \<Rightarrow> trace" where
  "slept env d t =
     t\<lparr>now := now t + setTimeoutDelay d + int (timerLag env (sleeps t)), sleeps := sleeps t + 1\<rparr>"

text \<open>
  The loop all wait operations share:
  \<^verbatim>\<open>while (Date.now() - startTime < timeout) {
    const snapshot = await fetchSnapshot();
    if (terminal) { throw or return }
    await new Promise((resolve) => setTimeout(resolve, pollInterval));
  }
  throw new Error(timeoutMessage);\<close>
  \<open>fetchSnapshot k\<close> is the outcome of the \<open>k\<close>-th call of the resource's getter, and
  \<open>settle\<close> is the body of the \<open>if\<close>: \<open>None\<close> when the snapshot is not terminal, the
  value returned or the error thrown when it is. The result is \<open>None\<close> when the loop
  never ends.
\<close>

partial_function (option) pollLoop ::
  "remote \<Rightarrow> (nat \<Rightarrow> js_error + obj) \<Rightarrow> (obj \<Rightarrow> (js_error + obj) option) \<Rightarrow> string \<Rightarrow>
   int \<Rightarrow> int \<Rightarrow> int \<Rightarrow> trace \<Rightarrow> ((js_error + obj) \<times> trace) option" where
  "pollLoop env fetchSnapshot settle timeoutMessage startTime pollInterval timeout t =
     (if now t - startTime < timeout then
        (case fetchSnapshot (fetches t) of
           Inl e \<Rightarrow> Some (Inl e, fetched env t)
         | Inr snapshot \<Rightarrow>
             (case settle snapshot of
                Some result \<Rightarrow> Some (result, fetched env t)
              | None \<Rightarrow>
                  pollLoop env fetchSnapshot settle timeoutMessage startTime pollInterval timeout
                    (slept env pollInterval (fetched env t))))
      else Some (Inl (newError timeoutMessage), t))"

subsection \<open>\<open>Webdata\<close>: screenshots and extractions\<close>

definition getScreenshot :: "platform \<Rightarrow> remote \<Rightarrow> string \<Rightarrow> nat \<Rightarrow> js_error + obj" where
  "getScreenshot p env ident k =
     (case get env ident k of
        Inl e \<Rightarrow> Inl e
      | Inr resp \<Rightarrow> Inr (convertScreenshotDates p resp))"

text \<open>
  \<^verbatim>\<open>if (screenshot.status === "completed" || screenshot.status === "failed") {
    if (screenshot.status === "failed") {
      throw new Error(screenshot.error || "Screenshot failed");
    }
    return screenshot;
  }\<close>
\<close>

definition settleScreenshot :: "platform \<Rightarrow> obj \<Rightarrow> (js_error + obj) option" where
  "settleScreenshot p screenshot =
     (if screenshot ''status'' = Some (VStr ''completed'') \<or>
         screenshot ''status'' = Some (VStr ''failed'')
      then (if screenshot ''status'' = Some (VStr ''failed'')
            then Some (Inl (newError (orDefault p (screenshot ''error'') ''Screenshot failed'')))
            else Some (Inr screenshot))
      else None)"

definition screenshotAndWait ::
  "platform \<Rightarrow> remote \<Rightarrow> obj \<Rightarrow> options \<Rightarrow> ((js_error + obj) \<times> trace) option" where
  "screenshotAndWait p env req opts =
     (case post env req of
        Inl e \<Rightarrow> Some (Inl e, submitted env)
      | Inr ident \<Rightarrow>
          pollLoop env (getScreenshot p env ident) (settleScreenshot p)
            ''Screenshot timed out''
            (startClock env)
            (withDefault (opt_pollInterval opts) 1000)
            (withDefault (opt_timeout opts) 60000)
            (submitted env))"

definition getExtraction :: "platform \<Rightarrow> remote \<Rightarrow> string \<Rightarrow> nat \<Rightarrow> js_error + obj" where
  "getExtraction p env ident k =
     (case get env ident k of
        Inl e \<Rightarrow> Inl e
      | Inr resp \<Rightarrow> Inr (convertExtractionDates p resp))"

text \<open>
  \<^verbatim>\<open>if (extraction.status === "completed" || extraction.status === "failed") {
    if (extraction.status === "failed") {
      throw new Error(extraction.error || "Extraction failed");
    }
    return extraction;
  }\<close>
\<close>

definition settleExtraction :: "platform \<Rightarrow> obj \<Rightarrow> (js_error + obj) option" where
  "settleExtraction p extraction =
     (if extraction ''status'' = Some (VStr ''completed'') \<or>
         extraction ''status'' = Some (VStr ''failed'')
      then (if extraction ''status'' = Some (VStr ''failed'')
            then Some (Inl (newError (orDefault p (extraction ''error'') ''Extraction failed'')))
            else Some (Inr extraction))
      else None)"

definition extractAndWait ::
  "platform \<Rightarrow> remote \<Rightarrow> obj \<Rightarrow> options \<Rightarrow> ((js_error + obj) \<times> trace) option" where
  "extractAndWait p env req opts =
     (case post env req of
        Inl e \<Rightarrow> Some (Inl e, submitted env)
      | Inr ident \<Rightarrow>
          pollLoop env (getExtraction p env ident) (settleExtraction p)
            ''Extraction timed out''
            (startClock env)
            (withDefault (opt_pollInterval opts) 1000)
            (withDefault (opt_timeout opts) 60000)
            (submitted env))"

subsection \<open>\<open>Workflows\<close>\<close>

definition getRun :: "platform \<Rightarrow> remote \<Rightarrow> string \<Rightarrow> nat \<Rightarrow> js_error + obj" where
  "getRun p env ident k =
     (case get env ident k of
        Inl e \<Rightarrow> Inl e
      | Inr resp \<Rightarrow> Inr (convertRunDates p resp))"

text \<open>
  \<^verbatim>\<open>if (run.status === "completed" || run.status === "failed" || run.status === "cancelled") {
    if (run.status === "failed") {
      throw new Error(run.error || "Workflow execution failed");
    }
    return run;
  }\<close>
\<close>

definition settleRun :: "platform \<Rightarrow> obj \<Rightarrow> (js_error + obj) option" where
  "settleRun p run =
     (if run ''status'' = Some (VStr ''completed'') \<or>
         run ''status'' = Some (VStr ''failed'') \<or>
         run ''status'' = Some (VStr ''cancelled'')
      then (if run ''status'' = Some (VStr ''failed'')
            then Some (Inl (newError (orDefault p (run ''error'') ''Workflow execution failed'')))
            else Some (Inr run))
      else None)"

definition runAndWait ::
  "platform \<Rightarrow> remote \<Rightarrow> obj \<Rightarrow> options \<Rightarrow> ((js_error + obj) \<times> trace) option" where
  "runAndWait p env req opts =
     (case post env req of
        Inl e \<Rightarrow> Some (Inl e, submitted env)
      | Inr ident \<Rightarrow>
          pollLoop env (getRun p env ident) (settleRun p)
            ''Workflow execution timed out''
            (startClock env)
            (withDefault (opt_pollInterval opts) 2000)
            (withDefault (opt_timeout opts) 600000)
            (submitted env))"

subsection \<open>Batch jobs\<close>

definition getBatchJob :: "platform \<Rightarrow> remote \<Rightarrow> string \<Rightarrow> nat \<Rightarrow> js_error + obj" where
  "getBatchJob p env ident k =
     (case get env ident k of
        Inl e \<Rightarrow> Inl e
      | Inr resp \<Rightarrow> Inr (convertBatchJobDates p resp))"

text \<open>
  \<^verbatim>\<open>if (job.status === "completed" || job.status === "failed" || job.status === "cancelled") {
    return job;
  }\<close>
\<close>

definition settleBatchJob :: "obj \<Rightarrow> (js_error + obj) option" where
  "settleBatchJob job =
     (if job ''status'' = Some (VStr ''completed'') \<or>
         job ''status'' = Some (VStr ''failed'') \<or>
         job ''status'' = Some (VStr ''cancelled'')
      then Some (Inr job)
      else None)"

definition batchScreenshotsAndWait ::
  "platform \<Rightarrow> remote \<Rightarrow> obj \<Rightarrow> options \<Rightarrow> ((js_error + obj) \<times> trace) option" where
  "batchScreenshotsAndWait p env req opts =
     (case post env req of
        Inl e \<Rightarrow> Some (Inl e, submitted env)
      | Inr ident \<Rightarrow>
          pollLoop env (getBatchJob p env ident) settleBatchJob
            ''Batch job timed out''
            (startClock env)
            (withDefault (opt_pollInterval opts) 2000)
            (withDefault (opt_timeout opts) 300000)
            (submitted env))"

definition batchExtractionsAndWait ::
  "platform \<Rightarrow> remote \<Rightarrow> obj \<Rightarrow> options \<Rightarrow> ((js_error + obj) \<times> trace) option" where
  "batchExtractionsAndWait p env req opts =
     (case post env req of
        Inl e \<Rightarrow> Some (Inl e, submitted env)
      | Inr ident \<Rightarrow>
          pollLoop env (getBatchJob p env ident) settleBatchJob
            ''Batch job timed out''
            (startClock env)
            (withDefault (opt_pollInterval opts) 2000)
            (withDefault (opt_timeout opts) 300000)
            (submitted env))"

text \<open>\<open>Screenshots.getBatchJob\<close> and \<open>Screenshots.batchAndWait\<close>.\<close>

definition Screenshots_getBatchJob :: "platform \<Rightarrow> remote \<Rightarrow> string \<Rightarrow> nat \<Rightarrow> js_error + obj" where
  "Screenshots_getBatchJob p env ident k =
     (case get env ident k of
        Inl e \<Rightarrow> Inl e
      | Inr resp \<Rightarrow> Inr (Screenshots_convertBatchJobDates p resp))"

definition Screenshots_batchAndWait ::
  "platform \<Rightarrow> remote \<Rightarrow> obj \<Rightarrow> options \<Rightarrow> ((js_error + obj) \<times> trace) option" where
  "Screenshots_batchAndWait p env req opts =
     (case post env req of
        Inl e \<Rightarrow> Some (Inl e, submitted env)
      | Inr ident \<Rightarrow>
          pollLoop env (Screenshots_getBatchJob p env ident) settleBatchJob
            ''Batch job timed out''
            (startClock env)
            (withDefault (opt_pollInterval opts) 2000)
            (withDefault (opt_timeout opts) 300000)
            (submitted env))"

subsection \<open>The clock along a run\<close>

text \<open>
  Milliseconds from entry to the \<open>n\<close>-th evaluation of the loop condition (counted from
  \<open>0\<close>), when each of the \<open>n\<close> iterations before it fetched and then slept.
\<close>

primrec elapsed :: "remote \<Rightarrow> int \<Rightarrow> nat \<Rightarrow> int" where
  "elapsed env d 0 = int (postLatency env)"
| "elapsed env d (Suc n) =
     elapsed env d n + int (getLatency env n) + setTimeoutDelay d + int (timerLag env n)"

text \<open>The state at that evaluation.\<close>

definition atTest :: "remote \<Rightarrow> int \<Rightarrow> nat \<Rightarrow> trace" where
  "atTest env d n = \<lparr>now = startClock env + elapsed env d n, submits = 1, fetches = n, sleeps = n\<rparr>"

text \<open>A snapshot whose \<open>status\<close> is one of the given strings.\<close>

definition hasStatus :: "obj \<Rightarrow> string list \<Rightarrow> bool" where
  "hasStatus s sts = list_ex (\<lambda>st. s ''status'' = Some (VStr st)) sts"

text \<open>
  The first \<open>n\<close> iterations all went on polling: each began before the deadline, and
  its status request returned a snapshot with none of the terminal statuses.
\<close>

definition pendingUntil :: "remote \<Rightarrow> string \<Rightarrow> int \<Rightarrow> int \<Rightarrow> string list \<Rightarrow> nat \<Rightarrow> bool" where
  "pendingUntil env ident d tmo terminal n =
     (\<forall>k<n. elapsed env d k < tmo \<and>
        (case get env ident k of Inr s \<Rightarrow> \<not> hasStatus s terminal | Inl e \<Rightarrow> False))"

text \<open>The same for the getter and the \<open>if\<close> body a loop is run with.\<close>

definition quiet :: "(nat \<Rightarrow> js_error + obj) \<Rightarrow> (obj \<Rightarrow> (js_error + obj) option) \<Rightarrow> nat \<Rightarrow> bool" where
  "quiet f settle k = (case f k of Inr s \<Rightarrow> settle s = None | Inl e \<Rightarrow> False)"

section \<open>Concrete platforms, responses and services\<close>

text \<open>Inputs at which the definitions above are evaluated below.\<close>

definition exampleDate :: "string \<Rightarrow> date" where
  "exampleDate s = (if s = ''2024-01-01T00:00:00.000Z'' then Date 1704067200000 else InvalidDate)"

definition examplePlatform :: platform where
  "examplePlatform =
     \<lparr>newDate = exampleDate, stringify = (\<lambda>v. ''{}''), toString = (\<lambda>v. ''[object Object]'')\<rparr>"

definition exampleClient :: HttpClient where
  "exampleClient = newHttpClient (HttpClientConfig ''sk_live_1'' None)"

definition respondWith :: "Response \<Rightarrow> network" where
  "respondWith r = (\<lambda>url init. Inr r)"

definition rejectWith :: "platform_error \<Rightarrow> network" where
  "rejectWith e = (\<lambda>url init. Inl e)"

definition unparsable503 :: Response where
  "unparsable503 =
     \<lparr>status = 503, statusText = [],
      json = Inl (PlatformError ''SyntaxError'' ''Unexpected token < in JSON'')\<rparr>"

definition unparsable404 :: Response where
  "unparsable404 =
     \<lparr>status = 404, statusText = ''Not Found'',
      json = Inl (PlatformError ''SyntaxError'' ''Unexpected end of JSON input'')\<rparr>"

definition titleRequired :: jsval where
  "titleRequired =
     VObj [(''message'', VStr ''title is required''), (''code'', VStr ''VALIDATION_ERROR'')]"

definition invalid400 :: Response where
  "invalid400 = \<lparr>status = 400, statusText = ''Bad Request'', json = Inr titleRequired\<rparr>"

definition connectionRefused :: platform_error where
  "connectionRefused = PlatformError ''TypeError'' ''fetch failed''"

text \<open>Snapshots: as decoded from the wire, and with dates already native.\<close>

definition exampleSnapshot :: "string \<Rightarrow> string \<Rightarrow> obj" where
  "exampleSnapshot ident st =
     [''id'' \<mapsto> VStr ident, ''status'' \<mapsto> VStr st,
      ''createdAt'' \<mapsto> VStr ''2024-01-01T00:00:00.000Z'', ''error'' \<mapsto> VNull]"

definition failedSnapshot :: "string \<Rightarrow> string \<Rightarrow> obj" where
  "failedSnapshot ident err =
     [''id'' \<mapsto> VStr ident, ''status'' \<mapsto> VStr ''failed'',
      ''createdAt'' \<mapsto> VStr ''2024-01-01T00:00:00.000Z'', ''error'' \<mapsto> VStr err]"

definition nativeScreenshot :: obj where
  "nativeScreenshot =
     [''id'' \<mapsto> VStr ''shot_1'', ''status'' \<mapsto> VStr ''processing'',
      ''createdAt'' \<mapsto> VDate (Date 1704067200000), ''completedAt'' \<mapsto> VNull]"

definition nativeRun :: obj where
  "nativeRun =
     [''id'' \<mapsto> VStr ''run_1'', ''status'' \<mapsto> VStr ''running'',
      ''createdAt'' \<mapsto> VDate (Date 1704067200000),
      ''startedAt'' \<mapsto> VDate (Date 1704067200500)]"

text \<open>
  A service that accepts the submission with the given id and answers the \<open>k\<close>-th status
  request for it from a script; one whose status never changes; one that answers
  \<open>processing\<close> \<open>n\<close> times and then a final snapshot; one that refuses the submission.
\<close>

definition service :: "string \<Rightarrow> (nat \<Rightarrow> js_error + obj) \<Rightarrow> remote" where
  "service ident script =
     \<lparr>startClock = 1704067200000, post = (\<lambda>req. Inr ident), postLatency = 120,
      get = (\<lambda>i k. if i = ident then script k else Inl (newError ''Not Found'')),
      getLatency = (\<lambda>k. 80), timerLag = (\<lambda>k. 4)\<rparr>"

definition stuck :: "string \<Rightarrow> string \<Rightarrow> remote" where
  "stuck ident st = service ident (\<lambda>k. Inr (exampleSnapshot ident st))"

definition settlesAfter :: "string \<Rightarrow> nat \<Rightarrow> obj \<Rightarrow> remote" where
  "settlesAfter ident n final =
     service ident (\<lambda>k. if k < n then Inr (exampleSnapshot ident ''processing'') else Inr final)"

definition refusing :: "js_error \<Rightarrow> remote" where
  "refusing e =
     \<lparr>startClock = 1704067200000, post = (\<lambda>req. Inl e), postLatency = 120,
      get = (\<lambda>i k. Inl (newError ''Not Found'')),
      getLatency = (\<lambda>k. 80), timerLag = (\<lambda>k. 4)\<rparr>"

definition unauthorized :: js_error where
  "unauthorized =
     JsError ''Error'' ''Invalid API key'' (Some 401) (Some (VStr []))
       (Some (VObj [(''message'', VStr ''Invalid API key'')])) None"

text \<open>Poll policies: the defaults, a short deadline, and a deadline shorter than the interval.\<close>

definition defaults :: options where
  "defaults = \<lparr>opt_pollInterval = None, opt_timeout = None\<rparr>"

definition quick :: options where
  "quick = \<lparr>opt_pollInterval = Some 1000, opt_timeout = Some 1500\<rparr>"

definition impatient :: options where
  "impatient = \<lparr>opt_pollInterval = Some 5000, opt_timeout = Some 1000\<rparr>"

text \<open>A poll interval one millisecond beyond the timer's range, with a timeout far below it.\<close>

definition overlong :: options where
  "overlong = \<lparr>opt_pollInterval = Some 2147483648, opt_timeout = Some 300\<rparr>"

text \<open>A request to submit.\<close>

definition exampleRequest :: obj where
  "exampleRequest = [''url'' \<mapsto> VStr ''https://example.com'']"

section \<open>Properties of the transport\<close>




lemma statusCode_handleErrorResponse:
  "statusCode (handleErrorResponse p resp) = Some (status resp)"
  by (simp add: handleErrorResponse_def Let_def)

lemma request_rejected:
  "fetch (baseUrl this @ path) (requestInit p this meth b) = Inl e \<Longrightarrow>
   request p this fetch meth path b = Inl (createError ''Network error'' (thrown e))"
  by (cases e) (simp add: request_def)

lemma request_not_ok:
  "fetch (baseUrl this @ path) (requestInit p this meth b) = Inr resp \<Longrightarrow> \<not> ok resp \<Longrightarrow>
   request p this fetch meth path b = Inl (handleErrorResponse p resp)"
  by (simp add: request_def statusCode_handleErrorResponse)

lemma message_unparsable:
  "json resp = Inl e \<Longrightarrow>
   message (handleErrorResponse p resp) =
     (if statusText resp = [] then ''HTTP '' @ decimal (status resp) else statusText resp)"
  by (simp add: handleErrorResponse_def orDefault_def)

lemma message_payload:
  "json resp = Inr (VObj kvs) \<Longrightarrow> map_of kvs ''message'' = Some (VStr m) \<Longrightarrow>
   message (handleErrorResponse p resp) =
     (if m = [] then ''HTTP '' @ decimal (status resp) else m)"
  by (simp add: handleErrorResponse_def orDefault_def)

lemma code_payload:
  "json resp = Inr (VObj kvs) \<Longrightarrow>
   code (handleErrorResponse p resp) =
     Some (case map_of kvs ''code'' of None \<Rightarrow> VStr [] | Some VNull \<Rightarrow> VStr [] | Some c \<Rightarrow> c)"
  by (simp add: handleErrorResponse_def)

lemma response_payload:
  "json resp = Inr v \<Longrightarrow> response (handleErrorResponse p resp) = Some v"
  by (simp add: handleErrorResponse_def Let_def)

text \<open>
  Claim C7, as the code has it. A response that is not 2xx makes \<open>request\<close> throw the
  error \<open>handleErrorResponse\<close> builds, which carries the numeric status. When the body
  does not parse as JSON its message is the HTTP status text, unless the status text is
  empty: then it is \<open>HTTP <status>\<close>. When the body parses as an object whose \<open>message\<close>
  is a string, the message is that string, unless it is empty: then it is
  \<open>HTTP <status>\<close> again. The error carries the payload's \<open>code\<close> (the empty string when
  the payload has none) and the payload itself.
\<close>

theorem error_response_message:
  assumes "fetch (baseUrl this @ path) (requestInit p this meth b) = Inr resp"
    and "\<not> ok resp"
  shows "request p this fetch meth path b = Inl (handleErrorResponse p resp) \<and>
         statusCode (handleErrorResponse p resp) = Some (status resp) \<and>
         (\<forall>e. json resp = Inl e \<longrightarrow>
            message (handleErrorResponse p resp) =
              (if statusText resp = [] then ''HTTP '' @ decimal (status resp)
               else statusText resp)) \<and>
         (\<forall>kvs m. json resp = Inr (VObj kvs) \<and> map_of kvs ''message'' = Some (VStr m) \<longrightarrow>
            message (handleErrorResponse p resp) =
              (if m = [] then ''HTTP '' @ decimal (status resp) else m) \<and>
            code (handleErrorResponse p resp) =
              Some (case map_of kvs ''code'' of
                      None \<Rightarrow> VStr [] | Some VNull \<Rightarrow> VStr [] | Some c \<Rightarrow> c) \<and>
            response (handleErrorResponse p resp) = Some (VObj kvs))"
  using assms
  by (simp add: request_not_ok statusCode_handleErrorResponse message_unparsable
      message_payload code_payload response_payload)

text \<open>
  The theorem at a 404 whose body is not JSON and at a 400 with the payload
  \<open>{"message": "title is required", "code": "VALIDATION_ERROR"}\<close>.
\<close>

theorem error_response_message_witness:
  "\<not> ok unparsable404 \<and> \<not> ok invalid400 \<and>
   request examplePlatform exampleClient (respondWith unparsable404) ''GET''
       ''/webdata/screenshots/s1'' None =
     Inl (JsError ''Error'' ''Not Found'' (Some 404) (Some (VStr []))
            (Some (VObj [(''message'', VStr ''Not Found'')])) None) \<and>
   request examplePlatform exampleClient (respondWith invalid400) ''POST''
       ''/webdata/screenshots'' (Some (VObj [])) =
     Inl (JsError ''Error'' ''title is required'' (Some 400) (Some (VStr ''VALIDATION_ERROR''))
            (Some titleRequired) None)"
proof -
  have a: "\<not> ok unparsable404" and b: "\<not> ok invalid400"
    by (simp_all add: ok_def unparsable404_def invalid400_def)
  have fa: "respondWith unparsable404 (baseUrl exampleClient @ ''/webdata/screenshots/s1'')
      (requestInit examplePlatform exampleClient ''GET'' None) = Inr unparsable404"
    and fb: "respondWith invalid400 (baseUrl exampleClient @ ''/webdata/screenshots'')
      (requestInit examplePlatform exampleClient ''POST'' (Some (VObj []))) = Inr invalid400"
    by (simp_all add: respondWith_def)
  have ea: "handleErrorResponse examplePlatform unparsable404 =
      JsError ''Error'' ''Not Found'' (Some 404) (Some (VStr []))
        (Some (VObj [(''message'', VStr ''Not Found'')])) None"
    by (simp add: handleErrorResponse_def orDefault_def unparsable404_def)
  have eb: "handleErrorResponse examplePlatform invalid400 =
      JsError ''Error'' ''title is required'' (Some 400) (Some (VStr ''VALIDATION_ERROR''))
        (Some titleRequired) None"
    by (simp add: handleErrorResponse_def orDefault_def invalid400_def titleRequired_def)
  from error_response_message [of "respondWith unparsable404" exampleClient
      "''/webdata/screenshots/s1''" examplePlatform "''GET''" None unparsable404]
    error_response_message [of "respondWith invalid400" exampleClient
      "''/webdata/screenshots''" examplePlatform "''POST''" "Some (VObj [])" invalid400]
    fa fb a b ea eb
  show ?thesis by simp
qed

text \<open>
  Claim C7 as stated fails where the status text is empty, as it is on every HTTP/2
  response: a 503 with an unparsable body and no status text is reported as
  \<open>HTTP 503\<close>, which is not the status text.
\<close>

theorem status_text_message_counterexample:
  "request examplePlatform exampleClient (respondWith unparsable503) ''GET''
       ''/webdata/screenshots/s1'' None =
     Inl (JsError ''Error'' ''HTTP 503'' (Some 503) (Some (VStr []))
            (Some (VObj [(''message'', VStr [])])) None) \<and>
   ''HTTP 503'' \<noteq> statusText unparsable503"
proof -
  have "decimal 503 = ''503''"
    by (simp add: decimal.simps)
  then show ?thesis
    by (simp add: request_def respondWith_def ok_def handleErrorResponse_def orDefault_def
        unparsable503_def)
qed

text \<open>
  Claim C8. When \<open>fetch\<close> rejects, \<open>request\<close> throws an error with the message
  \<open>Network error\<close> whose \<open>cause\<close> is what \<open>fetch\<close> rejected with and which has no
  \<open>statusCode\<close>; when the response is not 2xx, \<open>request\<close> throws the error of
  \<open>handleErrorResponse\<close> as it is, and that error has the response's status as its
  \<open>statusCode\<close>. So the presence of \<open>statusCode\<close> tells the two apart.
\<close>

theorem network_error_distinct:
  "(\<forall>e. fetch (baseUrl this @ path) (requestInit p this meth b) = Inl e \<longrightarrow>
      request p this fetch meth path b = Inl (createError ''Network error'' (thrown e)) \<and>
      message (createError ''Network error'' (thrown e)) = ''Network error'' \<and>
      cause (createError ''Network error'' (thrown e)) = Some (thrown e) \<and>
      statusCode (createError ''Network error'' (thrown e)) = None) \<and>
   (\<forall>resp. fetch (baseUrl this @ path) (requestInit p this meth b) = Inr resp \<and> \<not> ok resp \<longrightarrow>
      request p this fetch meth path b = Inl (handleErrorResponse p resp) \<and>
      statusCode (handleErrorResponse p resp) = Some (status resp))"
  by (simp add: request_rejected request_not_ok statusCode_handleErrorResponse createError_def)

text \<open>The theorem at a refused connection and at the 404 above.\<close>

theorem network_error_distinct_witness:
  "rejectWith connectionRefused (baseUrl exampleClient @ ''/webdata/screenshots/s1'')
      (requestInit examplePlatform exampleClient ''GET'' None) = Inl connectionRefused \<and>
   request examplePlatform exampleClient (rejectWith connectionRefused) ''GET''
       ''/webdata/screenshots/s1'' None =
     Inl (JsError ''Error'' ''Network error'' None None None
            (Some (JsError ''TypeError'' ''fetch failed'' None None None None))) \<and>
   respondWith unparsable404 (baseUrl exampleClient @ ''/webdata/screenshots/s1'')
      (requestInit examplePlatform exampleClient ''GET'' None) = Inr unparsable404 \<and>
   \<not> ok unparsable404 \<and>
   request examplePlatform exampleClient (respondWith unparsable404) ''GET''
       ''/webdata/screenshots/s1'' None =
     Inl (handleErrorResponse examplePlatform unparsable404) \<and>
   statusCode (handleErrorResponse examplePlatform unparsable404) = Some 404"
proof -
  have fa: "rejectWith connectionRefused (baseUrl exampleClient @ ''/webdata/screenshots/s1'')
      (requestInit examplePlatform exampleClient ''GET'' None) = Inl connectionRefused"
    by (simp add: rejectWith_def)
  have fb: "respondWith unparsable404 (baseUrl exampleClient @ ''/webdata/screenshots/s1'')
      (requestInit examplePlatform exampleClient ''GET'' None) = Inr unparsable404"
    by (simp add: respondWith_def)
  have b: "\<not> ok unparsable404"
    by (simp add: ok_def unparsable404_def)
  have s: "status unparsable404 = 404"
    by (simp add: unparsable404_def)
  have t: "createError ''Network error'' (thrown connectionRefused) =
      JsError ''Error'' ''Network error'' None None None
        (Some (JsError ''TypeError'' ''fetch failed'' None None None None))"
    by (simp add: createError_def connectionRefused_def)
  from network_error_distinct [of "rejectWith connectionRefused" exampleClient
      "''/webdata/screenshots/s1''" examplePlatform "''GET''" None]
    network_error_distinct [of "respondWith unparsable404" exampleClient
      "''/webdata/screenshots/s1''" examplePlatform "''GET''" None]
    fa fb b s t
  show ?thesis by simp
qed

section \<open>Properties of hydration\<close>

lemma stringToDate_idem [simp]: "stringToDate p k (stringToDate p k x) = stringToDate p k x"
  by (auto simp: stringToDate_def split: option.splits jsval.splits)

lemma truthyStringToDate_idem [simp]:
  "truthyStringToDate p k (truthyStringToDate p k x) = truthyStringToDate p k x"
  by (auto simp: truthyStringToDate_def split: option.splits jsval.splits)

text \<open>
  An object one statement leaves as it is stays so after a statement on another key.
\<close>

lemma stringToDate_fixed_stringToDate:
  "k' \<noteq> k \<Longrightarrow> stringToDate p k x = x \<Longrightarrow>
   stringToDate p k (stringToDate p k' x) = stringToDate p k' x"
  by (auto simp: stringToDate_def fun_upd_twist fun_upd_idem_iff split: option.splits jsval.splits)

lemma stringToDate_fixed_truthyStringToDate:
  "k' \<noteq> k \<Longrightarrow> stringToDate p k x = x \<Longrightarrow>
   stringToDate p k (truthyStringToDate p k' x) = truthyStringToDate p k' x"
  by (auto simp: stringToDate_def truthyStringToDate_def fun_upd_twist fun_upd_idem_iff
      split: option.splits jsval.splits)

lemma truthyStringToDate_fixed_stringToDate:
  "k' \<noteq> k \<Longrightarrow> truthyStringToDate p k x = x \<Longrightarrow>
   truthyStringToDate p k (stringToDate p k' x) = stringToDate p k' x"
  by (auto simp: stringToDate_def truthyStringToDate_def fun_upd_twist fun_upd_idem_iff
      split: option.splits jsval.splits if_splits)

lemma truthyStringToDate_fixed_truthyStringToDate:
  "k' \<noteq> k \<Longrightarrow> truthyStringToDate p k x = x \<Longrightarrow>
   truthyStringToDate p k (truthyStringToDate p k' x) = truthyStringToDate p k' x"
  by (auto simp: truthyStringToDate_def fun_upd_twist fun_upd_idem_iff
      split: option.splits jsval.splits if_splits)

lemmas fixed_simps =
  stringToDate_fixed_stringToDate stringToDate_fixed_truthyStringToDate
  truthyStringToDate_fixed_stringToDate truthyStringToDate_fixed_truthyStringToDate

lemmas convert_defs =
  convertScreenshotDates_def convertExtractionDates_def convertScheduleDates_def
  convertUsageDates_def convertBatchJobDates_def convertDates_def convertRunDates_def
  Screenshots_convertBatchJobDates_def

lemma convert_idem:
  "convertScreenshotDates p (convertScreenshotDates p x) = convertScreenshotDates p x"
  "convertExtractionDates p (convertExtractionDates p x) = convertExtractionDates p x"
  "convertScheduleDates p (convertScheduleDates p x) = convertScheduleDates p x"
  "convertUsageDates p (convertUsageDates p x) = convertUsageDates p x"
  "convertBatchJobDates p (convertBatchJobDates p x) = convertBatchJobDates p x"
  "convertDates p (convertDates p x) = convertDates p x"
  "convertRunDates p (convertRunDates p x) = convertRunDates p x"
  "Screenshots_convertBatchJobDates p (Screenshots_convertBatchJobDates p x) =
     Screenshots_convertBatchJobDates p x"
  by (simp_all add: convert_defs fixed_simps)

text \<open>A property that does not hold a string is not assigned to, and still holds none.\<close>

lemma stringToDate_untouched:
  "(\<forall>s. x k' \<noteq> Some (VStr s)) \<Longrightarrow> stringToDate p k x k' = x k'"
  by (auto simp: stringToDate_def split: option.splits jsval.splits)

lemma truthyStringToDate_untouched:
  "(\<forall>s. x k' \<noteq> Some (VStr s)) \<Longrightarrow> truthyStringToDate p k x k' = x k'"
  by (auto simp: truthyStringToDate_def split: option.splits jsval.splits)

lemma stringToDate_keeps_nonstring:
  "(\<forall>s. x k' \<noteq> Some (VStr s)) \<Longrightarrow> (\<forall>s. stringToDate p k x k' \<noteq> Some (VStr s))"
  by (auto simp: stringToDate_def split: option.splits jsval.splits)

lemma truthyStringToDate_keeps_nonstring:
  "(\<forall>s. x k' \<noteq> Some (VStr s)) \<Longrightarrow> (\<forall>s. truthyStringToDate p k x k' \<noteq> Some (VStr s))"
  by (auto simp: truthyStringToDate_def split: option.splits jsval.splits)

lemma convert_untouched:
  assumes "\<forall>s. x k \<noteq> Some (VStr s)"
  shows "convertScreenshotDates p x k = x k"
    and "convertExtractionDates p x k = x k"
    and "convertScheduleDates p x k = x k"
    and "convertUsageDates p x k = x k"
    and "convertBatchJobDates p x k = x k"
    and "convertDates p x k = x k"
    and "convertRunDates p x k = x k"
    and "Screenshots_convertBatchJobDates p x k = x k"
  using assms
  by (simp_all add: convert_defs stringToDate_untouched truthyStringToDate_untouched
      stringToDate_keeps_nonstring truthyStringToDate_keeps_nonstring)

text \<open>
  Claim C9. Each \<open>convert...Dates\<close> helper of \<open>Webdata\<close>, \<open>Workflows\<close> and
  \<open>Screenshots.convertBatchJobDates\<close> is idempotent on every object: hydrating a
  hydrated object changes nothing. Each is a total function, and a property that does
  not hold a string (a native \<open>Date\<close>, \<open>null\<close>, any other value, or no value at all) is
  left as it is.
\<close>

theorem hydration_idempotent:
  "convertScreenshotDates p (convertScreenshotDates p x) = convertScreenshotDates p x \<and>
   convertExtractionDates p (convertExtractionDates p x) = convertExtractionDates p x \<and>
   convertScheduleDates p (convertScheduleDates p x) = convertScheduleDates p x \<and>
   convertUsageDates p (convertUsageDates p x) = convertUsageDates p x \<and>
   convertBatchJobDates p (convertBatchJobDates p x) = convertBatchJobDates p x \<and>
   convertDates p (convertDates p x) = convertDates p x \<and>
   convertRunDates p (convertRunDates p x) = convertRunDates p x \<and>
   Screenshots_convertBatchJobDates p (Screenshots_convertBatchJobDates p x) =
     Screenshots_convertBatchJobDates p x \<and>
   ((\<forall>s. x k \<noteq> Some (VStr s)) \<longrightarrow>
      convertScreenshotDates p x k = x k \<and>
      convertExtractionDates p x k = x k \<and>
      convertScheduleDates p x k = x k \<and>
      convertUsageDates p x k = x k \<and>
      convertBatchJobDates p x k = x k \<and>
      convertDates p x k = x k \<and>
      convertRunDates p x k = x k \<and>
      Screenshots_convertBatchJobDates p x k = x k)"
  by (simp add: convert_idem convert_untouched)

text \<open>
  The theorem at a screenshot whose \<open>createdAt\<close> is already a \<open>Date\<close> and at a run
  that has no \<open>completedAt\<close>; and a snapshot from the wire, whose \<open>createdAt\<close> string
  becomes a \<open>Date\<close>.
\<close>

theorem hydration_idempotent_witness:
  "convertScreenshotDates examplePlatform nativeScreenshot ''createdAt'' =
     Some (VDate (Date 1704067200000)) \<and>
   convertRunDates examplePlatform nativeRun ''completedAt'' = None \<and>
   convertScreenshotDates examplePlatform (exampleSnapshot ''shot_1'' ''processing'') ''createdAt'' =
     Some (VDate (Date 1704067200000)) \<and>
   convertScreenshotDates examplePlatform
       (convertScreenshotDates examplePlatform (exampleSnapshot ''shot_1'' ''processing'')) =
     convertScreenshotDates examplePlatform (exampleSnapshot ''shot_1'' ''processing'')"
proof -
  have a: "\<forall>s. nativeScreenshot ''createdAt'' \<noteq> Some (VStr s)"
    and b: "\<forall>s. nativeRun ''completedAt'' \<noteq> Some (VStr s)"
    by (simp_all add: nativeScreenshot_def nativeRun_def)
  have c: "convertScreenshotDates examplePlatform (exampleSnapshot ''shot_1'' ''processing'')
      ''createdAt'' = Some (VDate (Date 1704067200000))"
    by (simp add: convertScreenshotDates_def stringToDate_def truthyStringToDate_def
        exampleSnapshot_def examplePlatform_def exampleDate_def)
  from hydration_idempotent [of examplePlatform nativeScreenshot "''createdAt''"]
    hydration_idempotent [of examplePlatform nativeRun "''completedAt''"]
    hydration_idempotent [of examplePlatform "exampleSnapshot ''shot_1'' ''processing''" "''id''"]
    a b c
  show ?thesis by (simp add: nativeScreenshot_def nativeRun_def)
qed

section \<open>Properties of the poll loop\<close>

text \<open>One evaluation of the loop condition and one iteration.\<close>

lemma pollLoop_timeout:
  "\<not> now t - startTime < timeout \<Longrightarrow>
   pollLoop env f settle msg startTime d timeout t = Some (Inl (newError msg), t)"
  by (subst pollLoop.simps) simp

lemma pollLoop_error:
  "now t - startTime < timeout \<Longrightarrow> f (fetches t) = Inl e \<Longrightarrow>
   pollLoop env f settle msg startTime d timeout t = Some (Inl e, fetched env t)"
  by (subst pollLoop.simps) simp

lemma pollLoop_settle:
  "now t - startTime < timeout \<Longrightarrow> f (fetches t) = Inr s \<Longrightarrow> settle s = Some r \<Longrightarrow>
   pollLoop env f settle msg startTime d timeout t = Some (r, fetched env t)"
  by (subst pollLoop.simps) simp

lemma pollLoop_continue:
  "now t - startTime < timeout \<Longrightarrow> f (fetches t) = Inr s \<Longrightarrow> settle s = None \<Longrightarrow>
   pollLoop env f settle msg startTime d timeout t =
   pollLoop env f settle msg startTime d timeout (slept env d (fetched env t))"
  by (subst pollLoop.simps) simp

lemma setTimeoutDelay_in_range [simp]:
  "1 \<le> d \<Longrightarrow> d \<le> 2147483647 \<Longrightarrow> setTimeoutDelay d = d"
  by (simp add: setTimeoutDelay_def)

lemma setTimeoutDelay_positive: "1 \<le> setTimeoutDelay d"
  by (simp add: setTimeoutDelay_def)

lemma atTest_0: "atTest env d 0 = submitted env"
  by (simp add: atTest_def submitted_def)

lemma atTest_Suc: "slept env d (fetched env (atTest env d n)) = atTest env d (Suc n)"
  by (simp add: atTest_def slept_def fetched_def)

lemma atTest_simps [simp]:
  "now (atTest env d n) - startClock env = elapsed env d n"
  "fetches (atTest env d n) = n" "sleeps (atTest env d n) = n" "submits (atTest env d n) = 1"
  by (simp_all add: atTest_def)

lemma fetched_simps [simp]:
  "fetches (fetched env t) = fetches t + 1" "sleeps (fetched env t) = sleeps t"
  "submits (fetched env t) = submits t"
  by (simp_all add: fetched_def)

lemma submitted_simps [simp]:
  "fetches (submitted env) = 0" "sleeps (submitted env) = 0" "submits (submitted env) = 1"
  "now (submitted env) - startClock env = int (postLatency env)"
  by (simp_all add: submitted_def)

text \<open>\<open>n\<close> iterations that all went on polling lead to the state \<open>atTest env d n\<close>.\<close>

lemma pollLoop_prefix:
  "(\<forall>k<n. elapsed env d k < timeout \<and> quiet f settle k) \<Longrightarrow>
   pollLoop env f settle msg (startClock env) d timeout (submitted env) =
   pollLoop env f settle msg (startClock env) d timeout (atTest env d n)"
proof (induction n)
  case 0
  show ?case by (simp add: atTest_0)
next
  case (Suc n)
  then have prev: "pollLoop env f settle msg (startClock env) d timeout (submitted env) =
      pollLoop env f settle msg (startClock env) d timeout (atTest env d n)"
    by simp
  from Suc.prems have "elapsed env d n < timeout" and "quiet f settle n"
    by simp_all
  then obtain s where s: "elapsed env d n < timeout" "f n = Inr s" "settle s = None"
    unfolding quiet_def by (cases "f n") simp_all
  have "pollLoop env f settle msg (startClock env) d timeout (atTest env d n) =
        pollLoop env f settle msg (startClock env) d timeout (slept env d (fetched env (atTest env d n)))"
    by (rule pollLoop_continue[where s = s]) (use s in simp_all)
  with prev show ?case by (simp add: atTest_Suc)
qed

lemma run_times_out:
  assumes "\<forall>k<n. elapsed env d k < timeout \<and> quiet f settle k" and "timeout \<le> elapsed env d n"
  shows "pollLoop env f settle msg (startClock env) d timeout (submitted env) =
         Some (Inl (newError msg), atTest env d n)"
  using assms by (simp add: pollLoop_prefix[where n = n] pollLoop_timeout)

lemma run_settles:
  assumes "\<forall>k<n. elapsed env d k < timeout \<and> quiet f settle k" and "elapsed env d n < timeout"
    and "f n = Inr s" and "settle s = Some r"
  shows "pollLoop env f settle msg (startClock env) d timeout (submitted env) =
         Some (r, fetched env (atTest env d n))"
  using assms by (simp add: pollLoop_prefix[where n = n] pollLoop_settle[where s = s])

text \<open>The loop makes no submission: whenever it ends, the count is the one it began with.\<close>

lemma pollLoop_submits:
  assumes "pollLoop env f settle msg startTime d timeout t = Some y"
  shows "submits (snd y) = submits t"
proof (rule pollLoop.raw_induct[where P = "\<lambda>env f settle msg startTime d timeout t y. submits (snd y) = submits t", OF _ assms])
  fix loop :: "remote \<Rightarrow> (nat \<Rightarrow> js_error + obj) \<Rightarrow> (obj \<Rightarrow> (js_error + obj) option) \<Rightarrow> string \<Rightarrow>
   int \<Rightarrow> int \<Rightarrow> int \<Rightarrow> trace \<Rightarrow> ((js_error + obj) \<times> trace) option"
  fix env f settle msg startTime d timeout t y
  assume IH: "\<And>env f settle msg startTime d timeout t y.
           loop env f settle msg startTime d timeout t = Some y \<Longrightarrow> submits (snd y) = submits t"
  assume body: "(if now t - startTime < timeout
      then (case f (fetches t) of
              Inl e \<Rightarrow> Some (Inl e, fetched env t)
            | Inr snapshot \<Rightarrow>
                (case settle snapshot of
                   None \<Rightarrow>
                     loop env f settle msg startTime d timeout (slept env d (fetched env t))
                 | Some result \<Rightarrow> Some (result, fetched env t)))
      else Some (Inl (newError msg), t)) = Some y"
  show "submits (snd y) = submits t"
    using body IH[of env f settle msg startTime d timeout "slept env d (fetched env t)" y]
    by (auto split: if_splits sum.splits option.splits simp: fetched_def slept_def)
qed

text \<open>Hydration assigns to date fields only: \<open>status\<close> and \<open>error\<close> are as they were.\<close>

lemma stringToDate_other [simp]: "k' \<noteq> k \<Longrightarrow> stringToDate p k x k' = x k'"
  by (auto simp: stringToDate_def split: option.splits jsval.splits)

lemma truthyStringToDate_other [simp]: "k' \<noteq> k \<Longrightarrow> truthyStringToDate p k x k' = x k'"
  by (auto simp: truthyStringToDate_def split: option.splits jsval.splits)

lemma convert_keeps_status [simp]:
  "convertScreenshotDates p x ''status'' = x ''status''"
  "convertExtractionDates p x ''status'' = x ''status''"
  "convertRunDates p x ''status'' = x ''status''"
  "convertBatchJobDates p x ''status'' = x ''status''"
  "Screenshots_convertBatchJobDates p x ''status'' = x ''status''"
  by (simp_all add: convert_defs)

lemma convert_keeps_error [simp]:
  "convertScreenshotDates p x ''error'' = x ''error''"
  "convertExtractionDates p x ''error'' = x ''error''"
  "convertRunDates p x ''error'' = x ''error''"
  by (simp_all add: convert_defs)

lemma hasStatus_convert [simp]:
  "hasStatus (convertScreenshotDates p x) sts = hasStatus x sts"
  "hasStatus (convertExtractionDates p x) sts = hasStatus x sts"
  "hasStatus (convertRunDates p x) sts = hasStatus x sts"
  "hasStatus (convertBatchJobDates p x) sts = hasStatus x sts"
  "hasStatus (Screenshots_convertBatchJobDates p x) sts = hasStatus x sts"
  by (simp_all add: hasStatus_def)

lemma settle_None:
  "(settleScreenshot p x = None) = (\<not> hasStatus x [''completed'', ''failed''])"
  "(settleExtraction p x = None) = (\<not> hasStatus x [''completed'', ''failed''])"
  "(settleRun p x = None) = (\<not> hasStatus x [''completed'', ''failed'', ''cancelled''])"
  "(settleBatchJob x = None) = (\<not> hasStatus x [''completed'', ''failed'', ''cancelled''])"
  by (simp_all add: settleScreenshot_def settleExtraction_def settleRun_def settleBatchJob_def hasStatus_def)

lemma pending_quiet:
  assumes "pendingUntil env ident d tmo sts n"
    and "\<And>k. f k = (case get env ident k of Inl e \<Rightarrow> Inl e | Inr s \<Rightarrow> Inr (h s))"
    and "\<And>s. (settle (h s) = None) = (\<not> hasStatus s sts)"
  shows "\<forall>k<n. elapsed env d k < tmo \<and> quiet f settle k"
  using assms(1) unfolding pendingUntil_def quiet_def
  by (auto simp: assms(2,3) split: sum.splits)

lemma loop_times_out:
  assumes "pendingUntil env ident d tmo sts n" and "tmo \<le> elapsed env d n"
    and "\<And>k. f k = (case get env ident k of Inl e \<Rightarrow> Inl e | Inr s \<Rightarrow> Inr (h s))"
    and "\<And>s. (settle (h s) = None) = (\<not> hasStatus s sts)"
  shows "pollLoop env f settle msg (startClock env) d tmo (submitted env) =
         Some (Inl (newError msg), atTest env d n)"
  by (rule run_times_out [OF pending_quiet [OF assms(1,3,4)] assms(2)])

lemma loop_settles:
  assumes "pendingUntil env ident d tmo sts n" and "elapsed env d n < tmo"
    and "get env ident n = Inr s" and "settle (h s) = Some r"
    and "\<And>k. f k = (case get env ident k of Inl e \<Rightarrow> Inl e | Inr s \<Rightarrow> Inr (h s))"
    and "\<And>s. (settle (h s) = None) = (\<not> hasStatus s sts)"
  shows "pollLoop env f settle msg (startClock env) d tmo (submitted env) =
         Some (r, fetched env (atTest env d n))"
proof (rule run_settles [OF pending_quiet [OF assms(1,5,6)] assms(2)])
  show "f n = Inr (h s)" by (simp add: assms(3,5))
  show "settle (h s) = Some r" by (rule assms(4))
qed

lemmas getter_defs =
  getScreenshot_def getExtraction_def getRun_def getBatchJob_def Screenshots_getBatchJob_def



text \<open>The wait operations, run from the submission on.\<close>

lemma settle_terminal:
  "hasStatus s [''completed'', ''failed''] \<Longrightarrow>
   settleScreenshot p (convertScreenshotDates p s) =
     Some (if s ''status'' = Some (VStr ''failed'')
           then Inl (newError (orDefault p (s ''error'') ''Screenshot failed''))
           else Inr (convertScreenshotDates p s))"
  "hasStatus s [''completed'', ''failed''] \<Longrightarrow>
   settleExtraction p (convertExtractionDates p s) =
     Some (if s ''status'' = Some (VStr ''failed'')
           then Inl (newError (orDefault p (s ''error'') ''Extraction failed''))
           else Inr (convertExtractionDates p s))"
  "hasStatus s [''completed'', ''failed'', ''cancelled''] \<Longrightarrow>
   settleRun p (convertRunDates p s) =
     Some (if s ''status'' = Some (VStr ''failed'')
           then Inl (newError (orDefault p (s ''error'') ''Workflow execution failed''))
           else Inr (convertRunDates p s))"
  "hasStatus s [''completed'', ''failed'', ''cancelled''] \<Longrightarrow>
   settleBatchJob (convertBatchJobDates p s) = Some (Inr (convertBatchJobDates p s))"
  "hasStatus s [''completed'', ''failed'', ''cancelled''] \<Longrightarrow>
   settleBatchJob (Screenshots_convertBatchJobDates p s) =
     Some (Inr (Screenshots_convertBatchJobDates p s))"
  by (auto simp: settleScreenshot_def settleExtraction_def settleRun_def settleBatchJob_def
      hasStatus_def)

lemma screenshotAndWait_times_out:
  assumes "post env req = Inr ident"
    and "pendingUntil env ident (withDefault (opt_pollInterval opts) 1000)
           (withDefault (opt_timeout opts) 60000) [''completed'', ''failed''] n"
    and "withDefault (opt_timeout opts) 60000 \<le> elapsed env (withDefault (opt_pollInterval opts) 1000) n"
  shows "screenshotAndWait p env req opts =
           Some (Inl (newError ''Screenshot timed out''),
                 atTest env (withDefault (opt_pollInterval opts) 1000) n)"
  using assms
  by (simp add: screenshotAndWait_def
      loop_times_out [where h = "convertScreenshotDates p"] getter_defs settle_None)

lemma extractAndWait_times_out:
  assumes "post env req = Inr ident"
    and "pendingUntil env ident (withDefault (opt_pollInterval opts) 1000)
           (withDefault (opt_timeout opts) 60000) [''completed'', ''failed''] n"
    and "withDefault (opt_timeout opts) 60000 \<le> elapsed env (withDefault (opt_pollInterval opts) 1000) n"
  shows "extractAndWait p env req opts =
           Some (Inl (newError ''Extraction timed out''),
                 atTest env (withDefault (opt_pollInterval opts) 1000) n)"
  using assms
  by (simp add: extractAndWait_def
      loop_times_out [where h = "convertExtractionDates p"] getter_defs settle_None)

lemma runAndWait_times_out:
  assumes "post env req = Inr ident"
    and "pendingUntil env ident (withDefault (opt_pollInterval opts) 2000)
           (withDefault (opt_timeout opts) 600000) [''completed'', ''failed'', ''cancelled''] n"
    and "withDefault (opt_timeout opts) 600000 \<le> elapsed env (withDefault (opt_pollInterval opts) 2000) n"
  shows "runAndWait p env req opts =
           Some (Inl (newError ''Workflow execution timed out''),
                 atTest env (withDefault (opt_pollInterval opts) 2000) n)"
  using assms
  by (simp add: runAndWait_def
      loop_times_out [where h = "convertRunDates p"] getter_defs settle_None)

lemma screenshotAndWait_settles:
  assumes "post env req = Inr ident"
    and "pendingUntil env ident (withDefault (opt_pollInterval opts) 1000)
           (withDefault (opt_timeout opts) 60000) [''completed'', ''failed''] n"
    and "elapsed env (withDefault (opt_pollInterval opts) 1000) n < withDefault (opt_timeout opts) 60000"
    and "get env ident n = Inr s" and "hasStatus s [''completed'', ''failed'']"
  shows "screenshotAndWait p env req opts =
           Some (if s ''status'' = Some (VStr ''failed'')
                 then Inl (newError (orDefault p (s ''error'') ''Screenshot failed''))
                 else Inr (convertScreenshotDates p s),
                 fetched env (atTest env (withDefault (opt_pollInterval opts) 1000) n))"
  using assms
  by (simp add: screenshotAndWait_def getter_defs settle_None settle_terminal
      loop_settles [where h = "convertScreenshotDates p" and s = s and
        r = "if s ''status'' = Some (VStr ''failed'')
             then Inl (newError (orDefault p (s ''error'') ''Screenshot failed''))
             else Inr (convertScreenshotDates p s)"])

lemma extractAndWait_settles:
  assumes "post env req = Inr ident"
    and "pendingUntil env ident (withDefault (opt_pollInterval opts) 1000)
           (withDefault (opt_timeout opts) 60000) [''completed'', ''failed''] n"
    and "elapsed env (withDefault (opt_pollInterval opts) 1000) n < withDefault (opt_timeout opts) 60000"
    and "get env ident n = Inr s" and "hasStatus s [''completed'', ''failed'']"
  shows "extractAndWait p env req opts =
           Some (if s ''status'' = Some (VStr ''failed'')
                 then Inl (newError (orDefault p (s ''error'') ''Extraction failed''))
                 else Inr (convertExtractionDates p s),
                 fetched env (atTest env (withDefault (opt_pollInterval opts) 1000) n))"
  using assms
  by (simp add: extractAndWait_def getter_defs settle_None settle_terminal
      loop_settles [where h = "convertExtractionDates p" and s = s and
        r = "if s ''status'' = Some (VStr ''failed'')
             then Inl (newError (orDefault p (s ''error'') ''Extraction failed''))
             else Inr (convertExtractionDates p s)"])

lemma runAndWait_settles:
  assumes "post env req = Inr ident"
    and "pendingUntil env ident (withDefault (opt_pollInterval opts) 2000)
           (withDefault (opt_timeout opts) 600000) [''completed'', ''failed'', ''cancelled''] n"
    and "elapsed env (withDefault (opt_pollInterval opts) 2000) n < withDefault (opt_timeout opts) 600000"
    and "get env ident n = Inr s" and "hasStatus s [''completed'', ''failed'', ''cancelled'']"
  shows "runAndWait p env req opts =
           Some (if s ''status'' = Some (VStr ''failed'')
                 then Inl (newError (orDefault p (s ''error'') ''Workflow execution failed''))
                 else Inr (convertRunDates p s),
                 fetched env (atTest env (withDefault (opt_pollInterval opts) 2000) n))"
  using assms
  by (simp add: runAndWait_def getter_defs settle_None settle_terminal
      loop_settles [where h = "convertRunDates p" and s = s and
        r = "if s ''status'' = Some (VStr ''failed'')
             then Inl (newError (orDefault p (s ''error'') ''Workflow execution failed''))
             else Inr (convertRunDates p s)"])

lemma batch_settles:
  assumes "post env req = Inr ident"
    and "pendingUntil env ident (withDefault (opt_pollInterval opts) 2000)
           (withDefault (opt_timeout opts) 300000) [''completed'', ''failed'', ''cancelled''] n"
    and "elapsed env (withDefault (opt_pollInterval opts) 2000) n < withDefault (opt_timeout opts) 300000"
    and "get env ident n = Inr job" and "hasStatus job [''completed'', ''failed'', ''cancelled'']"
  shows "batchScreenshotsAndWait p env req opts =
           Some (Inr (convertBatchJobDates p job),
                 fetched env (atTest env (withDefault (opt_pollInterval opts) 2000) n))"
    and "batchExtractionsAndWait p env req opts =
           Some (Inr (convertBatchJobDates p job),
                 fetched env (atTest env (withDefault (opt_pollInterval opts) 2000) n))"
    and "Screenshots_batchAndWait p env req opts =
           Some (Inr (Screenshots_convertBatchJobDates p job),
                 fetched env (atTest env (withDefault (opt_pollInterval opts) 2000) n))"
  using assms
  by (simp_all add: batchScreenshotsAndWait_def batchExtractionsAndWait_def
      Screenshots_batchAndWait_def getter_defs settle_None settle_terminal
      loop_settles [where h = "convertBatchJobDates p" and s = job and
        r = "Inr (convertBatchJobDates p job)"]
      loop_settles [where h = "Screenshots_convertBatchJobDates p" and s = job and
        r = "Inr (Screenshots_convertBatchJobDates p job)"])

lemma wait_submit_fails:
  assumes "post env req = Inl e"
  shows "screenshotAndWait p env req opts = Some (Inl e, submitted env)"
    and "extractAndWait p env req opts = Some (Inl e, submitted env)"
    and "runAndWait p env req opts = Some (Inl e, submitted env)"
  using assms by (simp_all add: screenshotAndWait_def extractAndWait_def runAndWait_def)

lemma wait_submits_once:
  "screenshotAndWait p env req opts = Some (r, t) \<Longrightarrow> submits t = 1"
  "extractAndWait p env req opts = Some (r, t) \<Longrightarrow> submits t = 1"
  "runAndWait p env req opts = Some (r, t) \<Longrightarrow> submits t = 1"
  by (auto simp: screenshotAndWait_def extractAndWait_def runAndWait_def
      split: sum.splits dest: pollLoop_submits)

lemma orDefault_simps:
  "orDefault p (Some (VStr e)) dflt = (if e = [] then dflt else e)"
  "orDefault p None dflt = dflt"
  "orDefault p (Some VNull) dflt = dflt"
  by (simp_all add: orDefault_def)

section \<open>Properties of the wait operations\<close>

text \<open>The concrete services and policies, evaluated.\<close>

lemma elapsed_service:
  "elapsed (service ident script) d n = 120 + int n * (84 + setTimeoutDelay d)"
  by (induction n) (simp_all add: service_def algebra_simps)

lemma service_simps [simp]:
  "post (service ident script) req = Inr ident"
  "get (service ident script) ident k = script k"
  "startClock (service ident script) = 1704067200000"
  "postLatency (service ident script) = 120"
  "getLatency (service ident script) k = 80"
  "timerLag (service ident script) k = 4"
  by (simp_all add: service_def)

lemma pendingUntil_0 [simp]: "pendingUntil env ident d tmo sts 0"
  by (simp add: pendingUntil_def)

lemma pendingUntil_Suc:
  "pendingUntil env ident d tmo sts (Suc n) =
     (pendingUntil env ident d tmo sts n \<and> elapsed env d n < tmo \<and>
      (case get env ident n of Inr s \<Rightarrow> \<not> hasStatus s sts | Inl e \<Rightarrow> False))"
  by (auto simp: pendingUntil_def less_Suc_eq)

lemma options_simps [simp]:
  "withDefault (opt_pollInterval quick) a = 1000" "withDefault (opt_timeout quick) b = 1500"
  "withDefault (opt_pollInterval impatient) a = 5000" "withDefault (opt_timeout impatient) b = 1000"
  "withDefault (opt_pollInterval overlong) a = 2147483648" "withDefault (opt_timeout overlong) b = 300"
  "withDefault (opt_pollInterval defaults) a = a" "withDefault (opt_timeout defaults) b = b"
  by (simp_all add: quick_def impatient_def overlong_def defaults_def withDefault_def)

lemma stuck_pending:
  "st \<notin> set sts \<Longrightarrow> pendingUntil (stuck ident st) ident 1000 1500 sts 2"
  by (simp add: numeral_2_eq_2 pendingUntil_Suc stuck_def hasStatus_def exampleSnapshot_def
      elapsed_service list_ex_iff del: elapsed.simps)


text \<open>
  Claim C1, as the code has it. When the submission succeeds, \<open>n\<close> iterations all went
  on polling (each status request returned a snapshot that is not terminal) and the deadline
  has passed at the next evaluation of the loop condition, \<open>screenshotAndWait\<close>,
  \<open>extractAndWait\<close> and \<open>runAndWait\<close> end after exactly \<open>n\<close> status requests by throwing
  \<open>new Error("Screenshot timed out")\<close>, \<open>new Error("Extraction timed out")\<close> and
  \<open>new Error("Workflow execution timed out")\<close>: an error with this fixed message and no
  other property, so neither the id nor the last snapshot is in it.
\<close>

theorem wait_times_out:
  "(post env req = Inr ident \<and>
    pendingUntil env ident (withDefault (opt_pollInterval opts) 1000)
      (withDefault (opt_timeout opts) 60000) [''completed'', ''failed''] n \<and>
    withDefault (opt_timeout opts) 60000 \<le> elapsed env (withDefault (opt_pollInterval opts) 1000) n \<longrightarrow>
    screenshotAndWait p env req opts =
      Some (Inl (newError ''Screenshot timed out''),
            atTest env (withDefault (opt_pollInterval opts) 1000) n) \<and>
    extractAndWait p env req opts =
      Some (Inl (newError ''Extraction timed out''),
            atTest env (withDefault (opt_pollInterval opts) 1000) n)) \<and>
   (post env req = Inr ident \<and>
    pendingUntil env ident (withDefault (opt_pollInterval opts) 2000)
      (withDefault (opt_timeout opts) 600000) [''completed'', ''failed'', ''cancelled''] n \<and>
    withDefault (opt_timeout opts) 600000 \<le> elapsed env (withDefault (opt_pollInterval opts) 2000) n \<longrightarrow>
    runAndWait p env req opts =
      Some (Inl (newError ''Workflow execution timed out''),
            atTest env (withDefault (opt_pollInterval opts) 2000) n)) \<and>
   newError msg = JsError ''Error'' msg None None None None \<and>
   fetches (atTest env d n) = n"
proof (intro conjI impI)
  show "newError msg = JsError ''Error'' msg None None None None"
    by (simp add: newError_def)
  show "fetches (atTest env d n) = n"
    by simp
qed (simp_all add: screenshotAndWait_times_out extractAndWait_times_out runAndWait_times_out)

text \<open>
  The theorem at services whose status never changes, polled every second with a deadline
  of 1.5 seconds: two status requests, two delays, then the error.
\<close>

theorem wait_times_out_witness:
  "screenshotAndWait examplePlatform (stuck ''shot_1'' ''processing'') exampleRequest quick =
     Some (Inl (JsError ''Error'' ''Screenshot timed out'' None None None None),
           \<lparr>now = 1704067202288, submits = 1, fetches = 2, sleeps = 2\<rparr>) \<and>
   extractAndWait examplePlatform (stuck ''ext_1'' ''pending'') exampleRequest quick =
     Some (Inl (JsError ''Error'' ''Extraction timed out'' None None None None),
           \<lparr>now = 1704067202288, submits = 1, fetches = 2, sleeps = 2\<rparr>) \<and>
   runAndWait examplePlatform (stuck ''run_1'' ''running'') exampleRequest quick =
     Some (Inl (JsError ''Error'' ''Workflow execution timed out'' None None None None),
           \<lparr>now = 1704067202288, submits = 1, fetches = 2, sleeps = 2\<rparr>)"
  using
    wait_times_out [of "stuck ''shot_1'' ''processing''" exampleRequest "''shot_1''" quick 2
      examplePlatform]
    wait_times_out [of "stuck ''ext_1'' ''pending''" exampleRequest "''ext_1''" quick 2
      examplePlatform]
    wait_times_out [of "stuck ''run_1'' ''running''" exampleRequest "''run_1''" quick 2
      examplePlatform]
    stuck_pending [of "''processing''" "[''completed'', ''failed'']" "''shot_1''"]
    stuck_pending [of "''pending''" "[''completed'', ''failed'']" "''ext_1''"]
    stuck_pending [of "''running''" "[''completed'', ''failed'', ''cancelled'']" "''run_1''"]
  by (simp add: stuck_def atTest_def newError_def elapsed_service)

text \<open>
  Claim C1 as stated fails: two runs that time out with different ids and different last
  snapshots throw the same error, so the error carries neither.
\<close>

theorem timeout_error_counterexample:
  "screenshotAndWait examplePlatform (stuck ''shot_1'' ''processing'') exampleRequest quick =
     Some (Inl (JsError ''Error'' ''Screenshot timed out'' None None None None),
           \<lparr>now = 1704067202288, submits = 1, fetches = 2, sleeps = 2\<rparr>) \<and>
   screenshotAndWait examplePlatform (stuck ''shot_2'' ''pending'') exampleRequest quick =
     Some (Inl (JsError ''Error'' ''Screenshot timed out'' None None None None),
           \<lparr>now = 1704067202288, submits = 1, fetches = 2, sleeps = 2\<rparr>) \<and>
   post (stuck ''shot_1'' ''processing'') exampleRequest = Inr ''shot_1'' \<and>
   post (stuck ''shot_2'' ''pending'') exampleRequest = Inr ''shot_2'' \<and>
   get (stuck ''shot_1'' ''processing'') ''shot_1'' 1 = Inr (exampleSnapshot ''shot_1'' ''processing'') \<and>
   get (stuck ''shot_2'' ''pending'') ''shot_2'' 1 = Inr (exampleSnapshot ''shot_2'' ''pending'') \<and>
   ''shot_1'' \<noteq> ''shot_2'' \<and>
   exampleSnapshot ''shot_1'' ''processing'' ''status'' \<noteq> exampleSnapshot ''shot_2'' ''pending'' ''status''"
proof -
  have a: "screenshotAndWait examplePlatform (stuck ''shot_1'' ''processing'') exampleRequest quick =
     Some (Inl (newError ''Screenshot timed out''), atTest (stuck ''shot_1'' ''processing'') 1000 2)"
    using screenshotAndWait_times_out [of "stuck ''shot_1'' ''processing''" exampleRequest
        "''shot_1''" quick 2 examplePlatform]
      stuck_pending [of "''processing''" "[''completed'', ''failed'']" "''shot_1''"]
    by (simp add: stuck_def elapsed_service)
  have b: "screenshotAndWait examplePlatform (stuck ''shot_2'' ''pending'') exampleRequest quick =
     Some (Inl (newError ''Screenshot timed out''), atTest (stuck ''shot_2'' ''pending'') 1000 2)"
    using screenshotAndWait_times_out [of "stuck ''shot_2'' ''pending''" exampleRequest
        "''shot_2''" quick 2 examplePlatform]
      stuck_pending [of "''pending''" "[''completed'', ''failed'']" "''shot_2''"]
    by (simp add: stuck_def elapsed_service)
  show ?thesis
    unfolding a b
    by (simp add: stuck_def atTest_def newError_def elapsed_service exampleSnapshot_def)
qed


lemma settlesAfter_pending:
  "''processing'' \<notin> set sts \<Longrightarrow>
   pendingUntil (settlesAfter ident (Suc 0) final) ident 1000 1500 sts (Suc 0)"
  by (simp add: pendingUntil_Suc settlesAfter_def hasStatus_def exampleSnapshot_def
      elapsed_service list_ex_iff del: elapsed.simps)

lemma settlesAfter_final:
  "get (settlesAfter ident n final) ident n = Inr final"
  by (simp add: settlesAfter_def)

text \<open>
  Claim C2, as the code has it. When the status request after \<open>n\<close> polling iterations is
  made before the deadline and returns a snapshot whose status is \<open>failed\<close>,
  \<open>screenshotAndWait\<close>, \<open>extractAndWait\<close> and \<open>runAndWait\<close> throw
  \<open>new Error(snapshot.error || default)\<close> and make no further status request: that one was
  the last of \<open>n + 1\<close>. The message is the snapshot's error string when that string is not
  empty, and the operation's default (\<open>Screenshot failed\<close>, \<open>Extraction failed\<close>,
  \<open>Workflow execution failed\<close>) when the error is the empty string, \<open>null\<close> or absent.
\<close>

theorem failed_snapshot_raises:
  "(post env req = Inr ident \<and>
    pendingUntil env ident (withDefault (opt_pollInterval opts) 1000)
      (withDefault (opt_timeout opts) 60000) [''completed'', ''failed''] n \<and>
    elapsed env (withDefault (opt_pollInterval opts) 1000) n < withDefault (opt_timeout opts) 60000 \<and>
    get env ident n = Inr s \<and> s ''status'' = Some (VStr ''failed'') \<longrightarrow>
    screenshotAndWait p env req opts =
      Some (Inl (newError (orDefault p (s ''error'') ''Screenshot failed'')),
            fetched env (atTest env (withDefault (opt_pollInterval opts) 1000) n)) \<and>
    extractAndWait p env req opts =
      Some (Inl (newError (orDefault p (s ''error'') ''Extraction failed'')),
            fetched env (atTest env (withDefault (opt_pollInterval opts) 1000) n))) \<and>
   (post env req = Inr ident \<and>
    pendingUntil env ident (withDefault (opt_pollInterval opts) 2000)
      (withDefault (opt_timeout opts) 600000) [''completed'', ''failed'', ''cancelled''] n \<and>
    elapsed env (withDefault (opt_pollInterval opts) 2000) n < withDefault (opt_timeout opts) 600000 \<and>
    get env ident n = Inr s \<and> s ''status'' = Some (VStr ''failed'') \<longrightarrow>
    runAndWait p env req opts =
      Some (Inl (newError (orDefault p (s ''error'') ''Workflow execution failed'')),
            fetched env (atTest env (withDefault (opt_pollInterval opts) 2000) n))) \<and>
   fetches (fetched env (atTest env d n)) = n + 1 \<and>
   orDefault p (Some (VStr e)) dflt = (if e = [] then dflt else e) \<and>
   orDefault p (Some VNull) dflt = dflt \<and>
   orDefault p None dflt = dflt"
proof (intro conjI impI)
  show "fetches (fetched env (atTest env d n)) = n + 1"
    by simp
qed (use screenshotAndWait_settles [of env req ident opts n s p]
      extractAndWait_settles [of env req ident opts n s p]
      runAndWait_settles [of env req ident opts n s p]
    in \<open>simp_all add: hasStatus_def orDefault_simps\<close>)

text \<open>
  The theorem at services that answer \<open>processing\<close> once and then \<open>failed\<close> with an
  error string: that string is the message, after two status requests and one delay.
\<close>

theorem failed_snapshot_raises_witness:
  "screenshotAndWait examplePlatform
       (settlesAfter ''shot_1'' 1 (failedSnapshot ''shot_1'' ''render error'')) exampleRequest quick =
     Some (Inl (JsError ''Error'' ''render error'' None None None None),
           \<lparr>now = 1704067201284, submits = 1, fetches = 2, sleeps = 1\<rparr>) \<and>
   extractAndWait examplePlatform
       (settlesAfter ''ext_1'' 1 (failedSnapshot ''ext_1'' ''render error'')) exampleRequest quick =
     Some (Inl (JsError ''Error'' ''render error'' None None None None),
           \<lparr>now = 1704067201284, submits = 1, fetches = 2, sleeps = 1\<rparr>) \<and>
   runAndWait examplePlatform
       (settlesAfter ''run_1'' 1 (failedSnapshot ''run_1'' ''step 2 failed'')) exampleRequest quick =
     Some (Inl (JsError ''Error'' ''step 2 failed'' None None None None),
           \<lparr>now = 1704067201284, submits = 1, fetches = 2, sleeps = 1\<rparr>)"
  using
    failed_snapshot_raises [of "settlesAfter ''shot_1'' 1 (failedSnapshot ''shot_1'' ''render error'')"
      exampleRequest "''shot_1''" quick 1 "failedSnapshot ''shot_1'' ''render error''" examplePlatform]
    failed_snapshot_raises [of "settlesAfter ''ext_1'' 1 (failedSnapshot ''ext_1'' ''render error'')"
      exampleRequest "''ext_1''" quick 1 "failedSnapshot ''ext_1'' ''render error''" examplePlatform]
    failed_snapshot_raises [of "settlesAfter ''run_1'' 1 (failedSnapshot ''run_1'' ''step 2 failed'')"
      exampleRequest "''run_1''" quick 1 "failedSnapshot ''run_1'' ''step 2 failed''" examplePlatform]
    settlesAfter_pending [of "[''completed'', ''failed'']" "''shot_1''"
      "failedSnapshot ''shot_1'' ''render error''"]
    settlesAfter_pending [of "[''completed'', ''failed'']" "''ext_1''"
      "failedSnapshot ''ext_1'' ''render error''"]
    settlesAfter_pending [of "[''completed'', ''failed'', ''cancelled'']" "''run_1''"
      "failedSnapshot ''run_1'' ''step 2 failed''"]
  by (simp add: settlesAfter_final)
     (simp add: settlesAfter_def failedSnapshot_def atTest_def fetched_def newError_def
       orDefault_def elapsed_service)

text \<open>
  Claim C2 as stated fails where the failed snapshot's error string is empty: the error
  thrown carries \<open>Screenshot failed\<close>, not the snapshot's error string.
\<close>

theorem failed_snapshot_message_counterexample:
  "screenshotAndWait examplePlatform
       (settlesAfter ''shot_1'' 0 (failedSnapshot ''shot_1'' [])) exampleRequest quick =
     Some (Inl (JsError ''Error'' ''Screenshot failed'' None None None None),
           \<lparr>now = 1704067200200, submits = 1, fetches = 1, sleeps = 0\<rparr>) \<and>
   get (settlesAfter ''shot_1'' 0 (failedSnapshot ''shot_1'' [])) ''shot_1'' 0 =
     Inr (failedSnapshot ''shot_1'' []) \<and>
   failedSnapshot ''shot_1'' [] ''status'' = Some (VStr ''failed'') \<and>
   failedSnapshot ''shot_1'' [] ''error'' = Some (VStr []) \<and>
   ''Screenshot failed'' \<noteq> []"
proof -
  have "screenshotAndWait examplePlatform
       (settlesAfter ''shot_1'' 0 (failedSnapshot ''shot_1'' [])) exampleRequest quick =
     Some (Inl (newError (orDefault examplePlatform (failedSnapshot ''shot_1'' [] ''error'')
                  ''Screenshot failed'')),
           fetched (settlesAfter ''shot_1'' 0 (failedSnapshot ''shot_1'' []))
             (atTest (settlesAfter ''shot_1'' 0 (failedSnapshot ''shot_1'' [])) 1000 0))"
    using screenshotAndWait_settles [of "settlesAfter ''shot_1'' 0 (failedSnapshot ''shot_1'' [])"
        exampleRequest "''shot_1''" quick 0 "failedSnapshot ''shot_1'' []" examplePlatform]
    by (simp add: settlesAfter_final)
       (simp add: settlesAfter_def failedSnapshot_def hasStatus_def)
  then show ?thesis
    by (simp add: settlesAfter_def failedSnapshot_def atTest_def fetched_def newError_def
        orDefault_def)
qed

text \<open>
  Claim C3. When the submission succeeds, the loop is entered, and the first status
  request returns a terminal snapshot, \<open>screenshotAndWait\<close>, \<open>extractAndWait\<close> and
  \<open>runAndWait\<close> end at once: they return the hydrated snapshot, or throw when its status
  is \<open>failed\<close>, after one status request and no delay.
\<close>

theorem terminal_first_fetch_no_sleep:
  "(post env req = Inr ident \<and>
    int (postLatency env) < withDefault (opt_timeout opts) 60000 \<and>
    get env ident 0 = Inr s \<and> hasStatus s [''completed'', ''failed''] \<longrightarrow>
    screenshotAndWait p env req opts =
      Some (if s ''status'' = Some (VStr ''failed'')
            then Inl (newError (orDefault p (s ''error'') ''Screenshot failed''))
            else Inr (convertScreenshotDates p s),
            fetched env (submitted env)) \<and>
    extractAndWait p env req opts =
      Some (if s ''status'' = Some (VStr ''failed'')
            then Inl (newError (orDefault p (s ''error'') ''Extraction failed''))
            else Inr (convertExtractionDates p s),
            fetched env (submitted env))) \<and>
   (post env req = Inr ident \<and>
    int (postLatency env) < withDefault (opt_timeout opts) 600000 \<and>
    get env ident 0 = Inr s \<and> hasStatus s [''completed'', ''failed'', ''cancelled''] \<longrightarrow>
    runAndWait p env req opts =
      Some (if s ''status'' = Some (VStr ''failed'')
            then Inl (newError (orDefault p (s ''error'') ''Workflow execution failed''))
            else Inr (convertRunDates p s),
            fetched env (submitted env))) \<and>
   sleeps (fetched env (submitted env)) = 0 \<and>
   fetches (fetched env (submitted env)) = 1"
proof (intro conjI impI)
  show "sleeps (fetched env (submitted env)) = 0" and "fetches (fetched env (submitted env)) = 1"
    by simp_all
qed (use screenshotAndWait_settles [of env req ident opts 0 s p]
      extractAndWait_settles [of env req ident opts 0 s p]
      runAndWait_settles [of env req ident opts 0 s p]
    in \<open>simp_all add: atTest_0\<close>)

text \<open>
  The theorem at services whose first answer is \<open>completed\<close>, \<open>failed\<close> and
  \<open>cancelled\<close>, with the default policies.
\<close>

theorem terminal_first_fetch_no_sleep_witness:
  "screenshotAndWait examplePlatform
       (settlesAfter ''shot_1'' 0 (exampleSnapshot ''shot_1'' ''completed'')) exampleRequest defaults =
     Some (Inr (convertScreenshotDates examplePlatform (exampleSnapshot ''shot_1'' ''completed'')),
           \<lparr>now = 1704067200200, submits = 1, fetches = 1, sleeps = 0\<rparr>) \<and>
   extractAndWait examplePlatform
       (settlesAfter ''ext_1'' 0 (failedSnapshot ''ext_1'' ''blocked by robots.txt'')) exampleRequest
       defaults =
     Some (Inl (JsError ''Error'' ''blocked by robots.txt'' None None None None),
           \<lparr>now = 1704067200200, submits = 1, fetches = 1, sleeps = 0\<rparr>) \<and>
   runAndWait examplePlatform
       (settlesAfter ''run_1'' 0 (exampleSnapshot ''run_1'' ''cancelled'')) exampleRequest defaults =
     Some (Inr (convertRunDates examplePlatform (exampleSnapshot ''run_1'' ''cancelled'')),
           \<lparr>now = 1704067200200, submits = 1, fetches = 1, sleeps = 0\<rparr>)"
  using
    terminal_first_fetch_no_sleep [of "settlesAfter ''shot_1'' 0 (exampleSnapshot ''shot_1'' ''completed'')"
      exampleRequest "''shot_1''" defaults "exampleSnapshot ''shot_1'' ''completed''" examplePlatform]
    terminal_first_fetch_no_sleep [of "settlesAfter ''ext_1'' 0 (failedSnapshot ''ext_1'' ''blocked by robots.txt'')"
      exampleRequest "''ext_1''" defaults "failedSnapshot ''ext_1'' ''blocked by robots.txt''" examplePlatform]
    terminal_first_fetch_no_sleep [of "settlesAfter ''run_1'' 0 (exampleSnapshot ''run_1'' ''cancelled'')"
      exampleRequest "''run_1''" defaults "exampleSnapshot ''run_1'' ''cancelled''" examplePlatform]
  by (simp add: settlesAfter_final)
     (simp add: settlesAfter_def failedSnapshot_def exampleSnapshot_def hasStatus_def fetched_def
       submitted_def newError_def orDefault_def)





text \<open>
  Every delay lasts a millisecond at least, so every iteration takes time and the loop
  ends: at the deadline at the latest.
\<close>

lemma pollLoop_ends:
  "\<exists>y. pollLoop env f settle msg startTime d timeout t = Some y"
proof (induction "nat (timeout - (now t - startTime))" arbitrary: t rule: less_induct)
  case less
  show ?case
  proof (cases "now t - startTime < timeout")
    case False
    then show ?thesis by (simp add: pollLoop_timeout)
  next
    case True
    show ?thesis
    proof (cases "f (fetches t)")
      case (Inl e)
      with True show ?thesis by (simp add: pollLoop_error)
    next
      case (Inr s)
      show ?thesis
      proof (cases "settle s")
        case (Some r)
        with True Inr show ?thesis by (simp add: pollLoop_settle)
      next
        case None
        have "nat (timeout - (now (slept env d (fetched env t)) - startTime))
              < nat (timeout - (now t - startTime))"
          using True setTimeoutDelay_positive [of d] by (simp add: slept_def fetched_def)
        from less [OF this] True Inr None show ?thesis
          by (simp add: pollLoop_continue [where s = s])
      qed
    qed
  qed
qed

lemma pollLoop_ends_pair:
  "\<exists>r t'. pollLoop env f settle msg startTime d timeout t = Some (r, t')"
  using pollLoop_ends [of env f settle msg startTime d timeout t] by auto

lemma wait_ends:
  "0 < withDefault (opt_pollInterval opts) 1000 \<Longrightarrow>
   \<exists>r t. screenshotAndWait p env req opts = Some (r, t) \<and> submits t = 1"
  "0 < withDefault (opt_pollInterval opts) 1000 \<Longrightarrow>
   \<exists>r t. extractAndWait p env req opts = Some (r, t) \<and> submits t = 1"
  "0 < withDefault (opt_pollInterval opts) 2000 \<Longrightarrow>
   \<exists>r t. runAndWait p env req opts = Some (r, t) \<and> submits t = 1"
proof -
  have ends: "\<exists>r t. op = Some (r, t) \<and> submits t = 1"
    if "\<exists>y. op = Some y" and "\<And>r t. op = Some (r, t) \<Longrightarrow> submits t = 1"
    for op :: "((js_error + obj) \<times> trace) option"
    using that by (cases op) auto
  show "0 < withDefault (opt_pollInterval opts) 1000 \<Longrightarrow>
   \<exists>r t. screenshotAndWait p env req opts = Some (r, t) \<and> submits t = 1"
    by (rule ends) (auto simp: screenshotAndWait_def pollLoop_ends_pair wait_submits_once split: sum.splits)
  show "0 < withDefault (opt_pollInterval opts) 1000 \<Longrightarrow>
   \<exists>r t. extractAndWait p env req opts = Some (r, t) \<and> submits t = 1"
    by (rule ends) (auto simp: extractAndWait_def pollLoop_ends_pair wait_submits_once split: sum.splits)
  show "0 < withDefault (opt_pollInterval opts) 2000 \<Longrightarrow>
   \<exists>r t. runAndWait p env req opts = Some (r, t) \<and> submits t = 1"
    by (rule ends) (auto simp: runAndWait_def pollLoop_ends_pair wait_submits_once split: sum.splits)
qed

text \<open>
  Claim C5. \<open>screenshotAndWait\<close>, \<open>extractAndWait\<close> and \<open>runAndWait\<close> submit once: when
  the submission throws, the operation ends with that very error, one submission and no
  status request; whenever the operation ends, however long it polled, one submission
  has been made; and with a positive poll interval it does end.
\<close>

theorem submit_exactly_once:
  "(post env req = Inl e \<longrightarrow>
      screenshotAndWait p env req opts = Some (Inl e, submitted env) \<and>
      extractAndWait p env req opts = Some (Inl e, submitted env) \<and>
      runAndWait p env req opts = Some (Inl e, submitted env)) \<and>
   submits (submitted env) = 1 \<and>
   fetches (submitted env) = 0 \<and>
   (screenshotAndWait p env req opts = Some (r, t) \<longrightarrow> submits t = 1) \<and>
   (extractAndWait p env req opts = Some (r, t) \<longrightarrow> submits t = 1) \<and>
   (runAndWait p env req opts = Some (r, t) \<longrightarrow> submits t = 1) \<and>
   (0 < withDefault (opt_pollInterval opts) 1000 \<longrightarrow>
      (\<exists>r' t'. screenshotAndWait p env req opts = Some (r', t') \<and> submits t' = 1) \<and>
      (\<exists>r' t'. extractAndWait p env req opts = Some (r', t') \<and> submits t' = 1)) \<and>
   (0 < withDefault (opt_pollInterval opts) 2000 \<longrightarrow>
      (\<exists>r' t'. runAndWait p env req opts = Some (r', t') \<and> submits t' = 1))"
  using wait_ends [of opts p env req]
  by (simp add: wait_submit_fails wait_submits_once)

lemma refusing_simps [simp]:
  "post (refusing e) req = Inl e"
  "startClock (refusing e) = 1704067200000"
  "postLatency (refusing e) = 120"
  by (simp_all add: refusing_def)

text \<open>
  The theorem at a service that answers the submission with a 401, and at one whose
  status never changes.
\<close>

theorem submit_exactly_once_witness:
  "screenshotAndWait examplePlatform (refusing unauthorized) exampleRequest defaults =
     Some (Inl unauthorized, \<lparr>now = 1704067200120, submits = 1, fetches = 0, sleeps = 0\<rparr>) \<and>
   extractAndWait examplePlatform (refusing unauthorized) exampleRequest defaults =
     Some (Inl unauthorized, \<lparr>now = 1704067200120, submits = 1, fetches = 0, sleeps = 0\<rparr>) \<and>
   runAndWait examplePlatform (refusing unauthorized) exampleRequest defaults =
     Some (Inl unauthorized, \<lparr>now = 1704067200120, submits = 1, fetches = 0, sleeps = 0\<rparr>) \<and>
   screenshotAndWait examplePlatform (stuck ''shot_1'' ''processing'') exampleRequest quick =
     Some (Inl (newError ''Screenshot timed out''),
           atTest (stuck ''shot_1'' ''processing'') 1000 2) \<and>
   submits (atTest (stuck ''shot_1'' ''processing'') 1000 2) = 1 \<and>
   fetches (atTest (stuck ''shot_1'' ''processing'') 1000 2) = 2"
proof -
  have run: "screenshotAndWait examplePlatform (stuck ''shot_1'' ''processing'') exampleRequest quick =
     Some (Inl (newError ''Screenshot timed out''), atTest (stuck ''shot_1'' ''processing'') 1000 2)"
    using screenshotAndWait_times_out [of "stuck ''shot_1'' ''processing''" exampleRequest
        "''shot_1''" quick 2 examplePlatform]
      stuck_pending [of "''processing''" "[''completed'', ''failed'']" "''shot_1''"]
    by (simp add: stuck_def elapsed_service)
  from submit_exactly_once [of "refusing unauthorized" exampleRequest unauthorized examplePlatform
      defaults "Inl unauthorized" "\<lparr>now = 1704067200120, submits = 1, fetches = 0, sleeps = 0\<rparr>"]
    submit_exactly_once [of "stuck ''shot_1'' ''processing''" exampleRequest unauthorized
      examplePlatform quick "Inl (newError ''Screenshot timed out'')"
      "atTest (stuck ''shot_1'' ''processing'') 1000 2"]
    run
  show ?thesis
    by (simp add: submitted_def)
qed

text \<open>
  Claim C10. When the status request after \<open>n\<close> polling iterations is made before the
  deadline and returns a job whose status is \<open>completed\<close>, \<open>failed\<close> or \<open>cancelled\<close>,
  \<open>Webdata.batchScreenshotsAndWait\<close>, \<open>Webdata.batchExtractionsAndWait\<close> and
  \<open>Screenshots.batchAndWait\<close> return that job, hydrated: a failed or cancelled job is
  returned like a completed one, and nothing is thrown.
\<close>

theorem batch_terminal_returns_job:
  "post env req = Inr ident \<and>
   pendingUntil env ident (withDefault (opt_pollInterval opts) 2000)
     (withDefault (opt_timeout opts) 300000) [''completed'', ''failed'', ''cancelled''] n \<and>
   elapsed env (withDefault (opt_pollInterval opts) 2000) n < withDefault (opt_timeout opts) 300000 \<and>
   get env ident n = Inr job \<and> hasStatus job [''completed'', ''failed'', ''cancelled''] \<longrightarrow>
   batchScreenshotsAndWait p env req opts =
     Some (Inr (convertBatchJobDates p job),
           fetched env (atTest env (withDefault (opt_pollInterval opts) 2000) n)) \<and>
   batchExtractionsAndWait p env req opts =
     Some (Inr (convertBatchJobDates p job),
           fetched env (atTest env (withDefault (opt_pollInterval opts) 2000) n)) \<and>
   Screenshots_batchAndWait p env req opts =
     Some (Inr (Screenshots_convertBatchJobDates p job),
           fetched env (atTest env (withDefault (opt_pollInterval opts) 2000) n))"
  using batch_settles [of env req ident opts n job p] by simp

text \<open>
  The theorem at services that answer \<open>processing\<close> once and then \<open>failed\<close> or
  \<open>cancelled\<close>: the job comes back, its status as the service sent it.
\<close>

theorem batch_terminal_returns_job_witness:
  "batchScreenshotsAndWait examplePlatform
       (settlesAfter ''batch_1'' 1 (exampleSnapshot ''batch_1'' ''failed'')) exampleRequest quick =
     Some (Inr (convertBatchJobDates examplePlatform (exampleSnapshot ''batch_1'' ''failed'')),
           \<lparr>now = 1704067201284, submits = 1, fetches = 2, sleeps = 1\<rparr>) \<and>
   batchExtractionsAndWait examplePlatform
       (settlesAfter ''batch_2'' 1 (exampleSnapshot ''batch_2'' ''cancelled'')) exampleRequest quick =
     Some (Inr (convertBatchJobDates examplePlatform (exampleSnapshot ''batch_2'' ''cancelled'')),
           \<lparr>now = 1704067201284, submits = 1, fetches = 2, sleeps = 1\<rparr>) \<and>
   Screenshots_batchAndWait examplePlatform
       (settlesAfter ''batch_3'' 1 (exampleSnapshot ''batch_3'' ''failed'')) exampleRequest quick =
     Some (Inr (Screenshots_convertBatchJobDates examplePlatform
                  (exampleSnapshot ''batch_3'' ''failed'')),
           \<lparr>now = 1704067201284, submits = 1, fetches = 2, sleeps = 1\<rparr>) \<and>
   convertBatchJobDates examplePlatform (exampleSnapshot ''batch_1'' ''failed'') ''status'' =
     Some (VStr ''failed'')"
  using
    batch_terminal_returns_job [of "settlesAfter ''batch_1'' 1 (exampleSnapshot ''batch_1'' ''failed'')"
      exampleRequest "''batch_1''" quick 1 "exampleSnapshot ''batch_1'' ''failed''" examplePlatform]
    batch_terminal_returns_job [of "settlesAfter ''batch_2'' 1 (exampleSnapshot ''batch_2'' ''cancelled'')"
      exampleRequest "''batch_2''" quick 1 "exampleSnapshot ''batch_2'' ''cancelled''" examplePlatform]
    batch_terminal_returns_job [of "settlesAfter ''batch_3'' 1 (exampleSnapshot ''batch_3'' ''failed'')"
      exampleRequest "''batch_3''" quick 1 "exampleSnapshot ''batch_3'' ''failed''" examplePlatform]
    settlesAfter_pending [of "[''completed'', ''failed'', ''cancelled'']" "''batch_1''"
      "exampleSnapshot ''batch_1'' ''failed''"]
    settlesAfter_pending [of "[''completed'', ''failed'', ''cancelled'']" "''batch_2''"
      "exampleSnapshot ''batch_2'' ''cancelled''"]
    settlesAfter_pending [of "[''completed'', ''failed'', ''cancelled'']" "''batch_3''"
      "exampleSnapshot ''batch_3'' ''failed''"]
  by (simp add: settlesAfter_final)
     (simp add: settlesAfter_def exampleSnapshot_def hasStatus_def atTest_def fetched_def
       elapsed_service)

end
